theory Spec2Isabelle
  imports Main "HOL-Library.Word"
begin

section \<open>Errors and outcomes\<close>

text \<open>
  The error values the modelled functions return or compare against. \<open>CommandError\<close> is
  \<^verbatim>\<open>command.Error\<close> (a server-reported error with an int32 code); \<open>OtherError\<close> stands for
  every error value of another dynamic type (network, selection, decoding, ...).
\<close>

datatype error =
    ErrMissingResumeToken
  | ErrUnacknowledgedWrite
  | ErrInvalidIndexValue
  | ErrNonStringIndexName
  | ErrElementNotFound
  | CommandError (Code: "32 word") (Message: string)
  | OtherError string

text \<open>A Go call either returns or panics.\<close>

datatype 'a outcome = Returned 'a | Panicked

section \<open>BSON values and documents\<close>

text \<open>
  Modelled from the spec: the \<^verbatim>\<open>bson\<close> package is not under src/, and the spec leaves the
  document data model to a collaborator. A value is of one of the types the code under
  src/ tells apart, or of another type it treats alike; a document is the list of its
  elements in order.
\<close>

datatype bson_type =
    TypeDouble | TypeString | TypeEmbeddedDocument | TypeArray | TypeBoolean
  | TypeNull | TypeInt32 | TypeInt64

datatype bson_value =
    VDouble "64 word"
  | VString string
  | VDocument "(string \<times> bson_value) list"
  | VArray "bson_value list"
  | VBoolean bool
  | VNull
  | VInt32 "32 word"
  | VInt64 "64 word"

type_synonym bson_element = "string \<times> bson_value"
type_synonym bson_document = "bson_element list"

fun Type :: "bson_value \<Rightarrow> bson_type" where
  "Type (VDouble _) = TypeDouble"
| "Type (VString _) = TypeString"
| "Type (VDocument _) = TypeEmbeddedDocument"
| "Type (VArray _) = TypeArray"
| "Type (VBoolean _) = TypeBoolean"
| "Type VNull = TypeNull"
| "Type (VInt32 _) = TypeInt32"
| "Type (VInt64 _) = TypeInt64"

text \<open>
  \<^verbatim>\<open>Document.LookupErr(key)\<close> for a single key: the value of the first element with that
  key, or \<^verbatim>\<open>bson.ErrElementNotFound\<close>.
\<close>

fun LookupErr :: "bson_document \<Rightarrow> string \<Rightarrow> error + bson_value" where
  "LookupErr [] k = Inl ErrElementNotFound"
| "LookupErr ((k', v) # es) k = (if k' = k then Inr v else LookupErr es k)"

section \<open>Index names (getOrGenerateIndexName)\<close>

text \<open>\<^verbatim>\<open>fmt.Sprintf("%d", n)\<close>: the decimal digits of a signed integer.\<close>

definition digit_char :: "nat \<Rightarrow> char" where
  "digit_char d = (''0123456789'' ! d)"

function string_of_nat :: "nat \<Rightarrow> string" where
  "string_of_nat n =
     (if n < 10 then [digit_char n] else string_of_nat (n div 10) @ [digit_char (n mod 10)])"
  by pat_completeness auto
termination
  by (relation "measure id") auto

declare string_of_nat.simps [simp del]

definition Sprintf_d :: "int \<Rightarrow> string" where
  "Sprintf_d i = (if i < 0 then CHR ''-'' # string_of_nat (nat (- i)) else string_of_nat (nat i))"

record IndexModel =
  Keys :: bson_document
  Options :: "bson_document option"

text \<open>
  The body of the \<^verbatim>\<open>for itr.Next()\<close> loop for one element: what is written to the buffer
  \<open>name\<close>, or the early return. Writes to a \<^verbatim>\<open>bytes.Buffer\<close> return a nil error, so the
  \<^verbatim>\<open>if err != nil\<close> branches after them are never taken.
\<close>

definition index_value_string :: "bson_value \<Rightarrow> error + string" where
  "index_value_string v =
     (case v of
        VInt32 n \<Rightarrow> Inr (Sprintf_d (sint n))
      | VInt64 n \<Rightarrow> Inr (Sprintf_d (sint n))
      | VString s \<Rightarrow> Inr s
      | _ \<Rightarrow> Inl ErrInvalidIndexValue)"

fun generate_loop :: "bson_document \<Rightarrow> bool \<Rightarrow> string \<Rightarrow> error + string" where
  "generate_loop [] first name = Inr name"
| "generate_loop ((k, v) # es) first name =
     (let name1 = (if \<not> first then name @ ''_'' else name);
          name2 = name1 @ k;
          name3 = name2 @ ''_''
      in case index_value_string v of
           Inl e \<Rightarrow> Inl e
         | Inr value \<Rightarrow> generate_loop es False (name3 @ value))"

definition getOrGenerateIndexName :: "IndexModel \<Rightarrow> error + string" where
  "getOrGenerateIndexName model =
     (case Options model of
        None \<Rightarrow> generate_loop (Keys model) True []
      | Some opts \<Rightarrow>
          (case LookupErr opts ''name'' of
             Inl e \<Rightarrow>
               (if e = ErrElementNotFound then generate_loop (Keys model) True [] else Inl e)
           | Inr nameVal \<Rightarrow>
               (case nameVal of
                  VString s \<Rightarrow> Inr s
                | _ \<Rightarrow> Inl ErrNonStringIndexName)))"

section \<open>Collaborators of the dispatch layer\<close>

text \<open>
  Server selectors, server descriptions, connections, sessions and read preferences are
  opaque to the modelled code: it only passes them on. A \<^verbatim>\<open>SelectedServer\<close> carries its
  description and what \<^verbatim>\<open>ss.Connection(ctx)\<close> gives; a \<^verbatim>\<open>Topology\<close> is what
  \<^verbatim>\<open>SelectServer\<close> and \<^verbatim>\<open>SupportsSessions\<close> answer during one call.
\<close>

datatype selector = Selector string
datatype server_desc = ServerDesc string
datatype connection = Conn nat
datatype session = ImplicitSession nat | ExplicitSession nat
datatype read_pref = ReadPrefMode string

record SelectedServer =
  Description :: server_desc
  Connection :: "error + connection"

record Topology =
  SelectServer :: "selector \<Rightarrow> error + SelectedServer"
  SupportsSessions :: bool

record Namespace =
  DB :: string
  Collection :: string

text \<open>
  Modelled from the spec: \<^verbatim>\<open>command.Cursor\<close> is an interface, and no implementation of it
  is under src/. Its model is a script: the results
  \<^verbatim>\<open>DecodeBytes\<close> will give at the positions still to come, the one at the present
  position, the error \<^verbatim>\<open>Err\<close> reports, and whether \<^verbatim>\<open>Close\<close> was called.
\<close>

record Cursor =
  cursor_ID :: "64 word"
  pending :: "(error + bson_document) list"
  current :: "error + bson_document"
  cursor_Err :: "error option"
  closed :: bool

definition cursor_Next :: "Cursor \<Rightarrow> bool \<times> Cursor" where
  "cursor_Next c =
     (case pending c of
        [] \<Rightarrow> (False, c)
      | d # ds \<Rightarrow> (True, c\<lparr>pending := ds, current := d\<rparr>))"

definition cursor_DecodeBytes :: "Cursor \<Rightarrow> error + bson_document" where
  "cursor_DecodeBytes c = current c"

definition cursor_Close :: "Cursor \<Rightarrow> error option \<times> Cursor" where
  "cursor_Close c = (None, c\<lparr>closed := True\<rparr>)"

record KillCursors =
  kc_NS :: Namespace
  kc_IDs :: "64 word list"

record Aggregate_cmd =
  agg_NS :: Namespace
  agg_Pipeline :: "bson_value list"
  agg_ReadPref :: "read_pref option"
  agg_Session :: "session option"

datatype FindOneAndUpdateOptioner =
    OptWriteConcern (WriteConcern: bson_element) (Acknowledged: bool)
  | OtherFindOneAndUpdateOpt string bson_value

record FindOneAndUpdate_cmd =
  fou_NS :: Namespace
  fou_Query :: bson_document
  fou_Update :: bson_document
  fou_Opts :: "FindOneAndUpdateOptioner list"

text \<open>What the modelled functions do to their collaborators, in order.\<close>

datatype event =
    CursorNextCall "64 word"
  | SelectServerCall selector
  | ConnectionCall server_desc
  | KillCursorsRoundTrip KillCursors server_desc connection
  | AggregateRoundTrip Aggregate_cmd server_desc connection
  | FindOneAndUpdateRoundTrip FindOneAndUpdate_cmd server_desc connection
  | ConnClose connection

section \<open>Change streams (mongo/change_stream.go)\<close>

datatype ChangeStreamOptioner =
    OptResumeAfter "bson_document option"
  | OtherChangeStreamOpt string bson_value

text \<open>
  Modelled from the spec: the \<^verbatim>\<open>options\<close> package (the \<^verbatim>\<open>Option\<close> method of a
  \<^verbatim>\<open>ChangeStreamOptioner\<close>) is not under src/. An option writes its directive into the
  document of stream options; the resume directive carries the resume token, and a
  directive with no token writes nothing.
\<close>

fun Option_cs :: "ChangeStreamOptioner \<Rightarrow> bson_document \<Rightarrow> bson_document" where
  "Option_cs (OptResumeAfter None) d = d"
| "Option_cs (OptResumeAfter (Some t)) d = d @ [(''resumeAfter'', VDocument t)]"
| "Option_cs (OtherChangeStreamOpt k v) d = d @ [(k, v)]"

record Collection_handle =
  namespace :: Namespace
  coll_readSelector :: selector

record changeStream =
  pipeline :: "bson_value list"
  options :: "ChangeStreamOptioner list"
  coll :: Collection_handle
  cursor :: "Cursor option"
  resumeToken :: "bson_document option"
  err :: "error option"

text \<open>
  What a call of \<^verbatim>\<open>Next\<close> meets outside the stream: the client's topology
  (\<^verbatim>\<open>cs.coll.client.topology\<close>) and the two round trips.
\<close>

record cs_world =
  topology :: Topology
  KillCursors_RoundTrip ::
    "KillCursors \<Rightarrow> server_desc \<Rightarrow> connection \<Rightarrow> bson_document \<times> error option"
  Aggregate_RoundTrip ::
    "Aggregate_cmd \<Rightarrow> server_desc \<Rightarrow> SelectedServer \<Rightarrow> connection
       \<Rightarrow> Cursor option \<times> error option"

definition errorCodeNotMaster :: "32 word" where
  "errorCodeNotMaster = 10107"

definition errorCodeCursorNotFound :: "32 word" where
  "errorCodeCursorNotFound = 43"

text \<open>
  The type switch of \<^verbatim>\<open>Next\<close>: it returns early only for a \<^verbatim>\<open>command.Error\<close> whose
  code is neither of the two; an error of any other type falls through the switch.
\<close>

definition returns_early :: "error \<Rightarrow> bool" where
  "returns_early e =
     (case e of
        CommandError c m \<Rightarrow> c \<noteq> errorCodeNotMaster \<and> c \<noteq> errorCodeCursorNotFound
      | _ \<Rightarrow> False)"

fun is_OptResumeAfter :: "ChangeStreamOptioner \<Rightarrow> bool" where
  "is_OptResumeAfter (OptResumeAfter _) = True"
| "is_OptResumeAfter _ = False"

text \<open>
  The loop over \<^verbatim>\<open>cs.options\<close>: the first resume directive is overwritten and the loop
  breaks; the flag is \<^verbatim>\<open>found\<close>.
\<close>

fun replace_first :: "ChangeStreamOptioner list \<Rightarrow> ChangeStreamOptioner
    \<Rightarrow> ChangeStreamOptioner list \<times> bool" where
  "replace_first [] r = ([], False)"
| "replace_first (opt # opts) r =
     (if is_OptResumeAfter opt then (r # opts, True)
      else (let (opts', found) = replace_first opts r in (opt # opts', found)))"

definition set_resume_directive :: "ChangeStreamOptioner list \<Rightarrow> ChangeStreamOptioner
    \<Rightarrow> ChangeStreamOptioner list" where
  "set_resume_directive opts r =
     (let (opts', found) = replace_first opts r
      in if \<not> found then opts' @ [r] else opts')"

text \<open>
  Modelled from the spec: \<^verbatim>\<open>bson.Array\<close> is not under src/. \<^verbatim>\<open>Array.Set(index, value)\<close>
  overwrites the value at an index of the array, and panics when the index is out of
  bounds.
\<close>

definition Array_Set :: "bson_value list \<Rightarrow> nat \<Rightarrow> bson_value \<Rightarrow> bson_value list option" where
  "Array_Set a i v = (if i < length a then Some (a[i := v]) else None)"

definition changeStreamStage :: "ChangeStreamOptioner list \<Rightarrow> bson_value" where
  "changeStreamStage opts =
     VDocument [(''$changeStream'', VDocument (foldl (\<lambda>d opt. Option_cs opt d) [] opts))]"

text \<open>
  The part of \<^verbatim>\<open>Next\<close> from line 102 on, entered with the cursor \<open>c\<close> that has just
  failed to advance. The result is what the call returns (or a panic) with the stream as
  the call leaves it, and the events of the call; \<open>tr\<close> holds the events so far. The
  deferred \<^verbatim>\<open>conn.Close()\<close> is the last event of every exit after the connection was
  acquired, a panic included.
\<close>

definition resume :: "cs_world \<Rightarrow> changeStream \<Rightarrow> Cursor \<Rightarrow> event list
    \<Rightarrow> (bool \<times> changeStream) outcome \<times> event list" where
  "resume w cs c tr =
     (let resumeTok = OptResumeAfter (resumeToken cs);
          cs1 = cs\<lparr>options := set_resume_directive (options cs) resumeTok\<rparr>;
          oldns = namespace (coll cs1);
          killCursors = \<lparr>kc_NS = \<lparr>DB = DB oldns, Collection = Collection oldns\<rparr>,
                         kc_IDs = [cursor_ID c]\<rparr>;
          tr1 = tr @ [SelectServerCall (coll_readSelector (coll cs1))]
      in case SelectServer (topology w) (coll_readSelector (coll cs1)) of
           Inl e \<Rightarrow> (Returned (False, cs1\<lparr>err := Some e\<rparr>), tr1)
         | Inr ss \<Rightarrow>
             (let tr2 = tr1 @ [ConnectionCall (Description ss)]
              in case Connection ss of
                   Inl e \<Rightarrow> (Returned (False, cs1\<lparr>err := Some e\<rparr>), tr2)
                 | Inr conn \<Rightarrow>
                     (let ignored = KillCursors_RoundTrip w killCursors (Description ss) conn;
                          tr3 = tr2 @ [KillCursorsRoundTrip killCursors (Description ss) conn]
                      in case Array_Set (pipeline cs1) 0 (changeStreamStage (options cs1)) of
                           None \<Rightarrow> (Panicked, tr3 @ [ConnClose conn])
                         | Some p \<Rightarrow>
                             (let cs2 = cs1\<lparr>pipeline := p\<rparr>;
                                  oldns2 = namespace (coll cs2);
                                  aggCmd = \<lparr>agg_NS = \<lparr>DB = DB oldns2,
                                                       Collection = Collection oldns2\<rparr>,
                                            agg_Pipeline = pipeline cs2,
                                            agg_ReadPref = None, agg_Session = None\<rparr>;
                                  (cur, e) = Aggregate_RoundTrip w aggCmd (Description ss) ss conn;
                                  tr4 = tr3 @ [AggregateRoundTrip aggCmd (Description ss) conn];
                                  cs3 = cs2\<lparr>cursor := cur, err := e\<rparr>
                              in if e \<noteq> None then (Returned (False, cs3), tr4 @ [ConnClose conn])
                                 else (case cur of
                                         None \<Rightarrow> (Panicked, tr4 @ [ConnClose conn])
                                       | Some c' \<Rightarrow>
                                           (let (more, c'') = cursor_Next c'
                                            in (Returned (more, cs3\<lparr>cursor := Some c''\<rparr>),
                                                tr4 @ [CursorNextCall (cursor_ID c'),
                                                       ConnClose conn])))))))"

text \<open>\<^verbatim>\<open>Next\<close>. A nil cursor makes the first method call panic.\<close>

definition changeStream_Next :: "cs_world \<Rightarrow> changeStream
    \<Rightarrow> (bool \<times> changeStream) outcome \<times> event list" where
  "changeStream_Next w cs =
     (case cursor cs of
        None \<Rightarrow> (Panicked, [])
      | Some c0 \<Rightarrow>
          (let (more, c) = cursor_Next c0;
               cs0 = cs\<lparr>cursor := Some c\<rparr>;
               tr = [CursorNextCall (cursor_ID c0)]
           in if more then (Returned (True, cs0), tr)
              else (case cursor_Err c of
                      None \<Rightarrow> (Returned (False, cs0), tr)
                    | Some e \<Rightarrow>
                        (if returns_early e then (Returned (False, cs0), tr)
                         else resume w cs0 c tr))))"

text \<open>\<^verbatim>\<open>Close\<close>, \<^verbatim>\<open>Err\<close> and \<^verbatim>\<open>DecodeBytes\<close>.\<close>

definition changeStream_Close :: "changeStream \<Rightarrow> (error option \<times> changeStream) outcome" where
  "changeStream_Close cs =
     (case cursor cs of
        None \<Rightarrow> Panicked
      | Some c \<Rightarrow> (let (e, c') = cursor_Close c in Returned (e, cs\<lparr>cursor := Some c'\<rparr>)))"

definition changeStream_Err :: "changeStream \<Rightarrow> error option outcome" where
  "changeStream_Err cs =
     (if err cs \<noteq> None then Returned (err cs)
      else (case cursor cs of None \<Rightarrow> Panicked | Some c \<Rightarrow> Returned (cursor_Err c)))"

text \<open>
  Modelled from the spec: \<^verbatim>\<open>bson.Value\<close> is not under src/. The resume token is a
  document; \<^verbatim>\<open>Value.MutableDocument()\<close> gives the embedded document of a value and
  panics on a value of another type.
\<close>

definition MutableDocument :: "bson_value \<Rightarrow> bson_document outcome" where
  "MutableDocument v = (case v of VDocument d \<Rightarrow> Returned d | _ \<Rightarrow> Panicked)"

definition changeStream_DecodeBytes :: "changeStream
    \<Rightarrow> ((error + bson_document) \<times> changeStream) outcome" where
  "changeStream_DecodeBytes cs =
     (case cursor cs of
        None \<Rightarrow> Panicked
      | Some c \<Rightarrow>
          (case cursor_DecodeBytes c of
             Inl e \<Rightarrow> Returned (Inl e, cs)
           | Inr br \<Rightarrow>
               (case LookupErr br ''_id'' of
                  Inl e \<Rightarrow>
                    (case changeStream_Close cs of
                       Panicked \<Rightarrow> Panicked
                     | Returned (ignored, cs') \<Rightarrow> Returned (Inl ErrMissingResumeToken, cs'))
                | Inr idv \<Rightarrow>
                    (case MutableDocument idv of
                       Panicked \<Rightarrow> Panicked
                     | Returned d \<Rightarrow> Returned (Inr br, cs\<lparr>resumeToken := Some d\<rparr>)))))"

section \<open>Dispatch of FindOneAndUpdate (core/dispatch/find_one_and_update.go)\<close>

datatype write_concern = WriteConcernValue string

record FindAndModify =
  Value :: bson_document

text \<open>
  What the dispatch meets outside: \<^verbatim>\<open>writeConcernOption\<close> (declared elsewhere in the
  package, taken as a parameter) and the round trip of the command, which may panic.
\<close>

record fou_world =
  writeConcernOption :: "write_concern \<Rightarrow> error + FindOneAndUpdateOptioner"
  FindOneAndUpdate_RoundTrip ::
    "FindOneAndUpdate_cmd \<Rightarrow> server_desc \<Rightarrow> connection
       \<Rightarrow> (FindAndModify \<times> error option) outcome"

text \<open>
  The function literal started by the \<^verbatim>\<open>go\<close> statement, with the variables it captures.
\<close>

datatype goroutine = Detached FindOneAndUpdate_cmd server_desc connection

text \<open>
  The loop over \<^verbatim>\<open>cmd.Opts\<close> that sets \<^verbatim>\<open>acknowledged\<close>: the first
  \<^verbatim>\<open>OptWriteConcern\<close> decides and the loop breaks.
\<close>

fun acknowledged_loop :: "FindOneAndUpdateOptioner list \<Rightarrow> bool" where
  "acknowledged_loop [] = True"
| "acknowledged_loop (OptWriteConcern e a # opts) = a"
| "acknowledged_loop (OtherFindOneAndUpdateOpt k v # opts) = acknowledged_loop opts"

definition inject_write_concern :: "fou_world \<Rightarrow> FindOneAndUpdate_cmd \<Rightarrow> write_concern option
    \<Rightarrow> error + FindOneAndUpdate_cmd" where
  "inject_write_concern w cmd wc =
     (case wc of
        None \<Rightarrow> Inr cmd
      | Some wc' \<Rightarrow>
          (case writeConcernOption w wc' of
             Inl e \<Rightarrow> Inl e
           | Inr opt \<Rightarrow> Inr (cmd\<lparr>fou_Opts := fou_Opts cmd @ [opt]\<rparr>)))"

text \<open>
  The result of a call: what it returns (or a panic), the events of the call itself, and
  the goroutines it started.
\<close>

definition FindOneAndUpdate :: "fou_world \<Rightarrow> FindOneAndUpdate_cmd \<Rightarrow> Topology \<Rightarrow> selector
    \<Rightarrow> write_concern option
    \<Rightarrow> (FindAndModify \<times> error option) outcome \<times> event list \<times> goroutine list" where
  "FindOneAndUpdate w cmd topo sel wc =
     (let tr0 = [SelectServerCall sel]
      in case SelectServer topo sel of
           Inl e \<Rightarrow> (Returned (\<lparr>Value = []\<rparr>, Some e), tr0, [])
         | Inr ss \<Rightarrow>
             (case inject_write_concern w cmd wc of
                Inl e \<Rightarrow> (Returned (\<lparr>Value = []\<rparr>, Some e), tr0, [])
              | Inr cmd1 \<Rightarrow>
                  (let acknowledged = acknowledged_loop (fou_Opts cmd1);
                       desc = Description ss;
                       tr1 = tr0 @ [ConnectionCall desc]
                   in case Connection ss of
                        Inl e \<Rightarrow> (Returned (\<lparr>Value = []\<rparr>, Some e), tr1, [])
                      | Inr conn \<Rightarrow>
                          (if \<not> acknowledged
                           then (Returned (\<lparr>Value = []\<rparr>, Some ErrUnacknowledgedWrite), tr1,
                                 [Detached cmd1 desc conn])
                           else (FindOneAndUpdate_RoundTrip w cmd1 desc conn,
                                 tr1 @ [FindOneAndUpdateRoundTrip cmd1 desc conn, ConnClose conn],
                                 [])))))"

text \<open>
  Running the goroutine. Its deferred calls run last-in first-out after the body, also when
  the body panics: first \<^verbatim>\<open>conn.Close()\<close>, then the function that calls \<^verbatim>\<open>recover()\<close>,
  which ends a panic.
\<close>

definition recover :: "unit outcome \<Rightarrow> unit outcome" where
  "recover p = (case p of Panicked \<Rightarrow> Returned () | Returned u \<Rightarrow> Returned u)"

definition run_goroutine :: "fou_world \<Rightarrow> goroutine \<Rightarrow> unit outcome \<times> event list" where
  "run_goroutine w g =
     (case g of
        Detached cmd desc conn \<Rightarrow>
          (let body = (case FindOneAndUpdate_RoundTrip w cmd desc conn of
                         Panicked \<Rightarrow> Panicked
                       | Returned ignored \<Rightarrow> Returned ());
               tr = [FindOneAndUpdateRoundTrip cmd desc conn, ConnClose conn]
           in (recover body, tr)))"

section \<open>Dispatch of Aggregate\<close>

datatype uuid = UUID nat
datatype session_pool = Pool nat

text \<open>
  Modelled from the spec: \<^verbatim>\<open>command.Aggregate.HasDollarOut\<close> is not under src/. It says
  whether the pipeline of the command contains an output-mutating (\<^verbatim>\<open>$out\<close>) stage.
\<close>

definition is_out_stage :: "bson_value \<Rightarrow> bool" where
  "is_out_stage v =
     (case v of
        VDocument ((k, x) # es) \<Rightarrow> k = ''$out''
      | _ \<Rightarrow> False)"

definition HasDollarOut :: "Aggregate_cmd \<Rightarrow> bool" where
  "HasDollarOut cmd = list_ex is_out_stage (agg_Pipeline cmd)"

text \<open>
  What the dispatch meets outside: \<^verbatim>\<open>getReadPrefBasedOnTransaction\<close> and
  \<^verbatim>\<open>session.NewClientSession\<close> (neither is under src/; parameters) and the round trip.
\<close>

record agg_world =
  getReadPrefBasedOnTransaction ::
    "read_pref option \<Rightarrow> session option \<Rightarrow> error + read_pref option"
  NewClientSession :: "session_pool \<Rightarrow> uuid \<Rightarrow> error + session"
  cmd_RoundTrip ::
    "Aggregate_cmd \<Rightarrow> server_desc \<Rightarrow> SelectedServer \<Rightarrow> connection
       \<Rightarrow> Cursor option \<times> error option"

definition attach_session :: "agg_world \<Rightarrow> Aggregate_cmd \<Rightarrow> Topology \<Rightarrow> uuid \<Rightarrow> session_pool
    \<Rightarrow> error + Aggregate_cmd" where
  "attach_session w cmd topo clientID pool =
     (if agg_Session cmd = None \<and> SupportsSessions topo
      then (case NewClientSession w pool clientID of
              Inl e \<Rightarrow> Inl e
            | Inr s \<Rightarrow> Inr (cmd\<lparr>agg_Session := Some s\<rparr>))
      else Inr cmd)"

definition Aggregate :: "agg_world \<Rightarrow> Aggregate_cmd \<Rightarrow> Topology \<Rightarrow> selector \<Rightarrow> selector
    \<Rightarrow> uuid \<Rightarrow> session_pool \<Rightarrow> (Cursor option \<times> error option) \<times> event list" where
  "Aggregate w cmd topo readSelector writeSelector clientID pool =
     (let dollarOut = HasDollarOut cmd;
          (selected, tr0) =
            (case dollarOut of
               True \<Rightarrow> (SelectServer topo writeSelector, [SelectServerCall writeSelector])
             | False \<Rightarrow> (SelectServer topo readSelector, [SelectServerCall readSelector]))
      in case selected of
           Inl e \<Rightarrow> ((None, Some e), tr0)
         | Inr ss \<Rightarrow>
             (let desc = Description ss;
                  tr1 = tr0 @ [ConnectionCall desc]
              in case Connection ss of
                   Inl e \<Rightarrow> ((None, Some e), tr1)
                 | Inr conn \<Rightarrow>
                     (case getReadPrefBasedOnTransaction w (agg_ReadPref cmd) (agg_Session cmd) of
                        Inl e \<Rightarrow> ((None, Some e), tr1 @ [ConnClose conn])
                      | Inr rp \<Rightarrow>
                          (case attach_session w (cmd\<lparr>agg_ReadPref := rp\<rparr>) topo clientID pool of
                             Inl e \<Rightarrow> ((None, Some e), tr1 @ [ConnClose conn])
                           | Inr cmd1 \<Rightarrow>
                               (cmd_RoundTrip w cmd1 desc ss conn,
                                tr1 @ [AggregateRoundTrip cmd1 desc conn, ConnClose conn])))))"

section \<open>Vocabulary of the statements\<close>

text \<open>
  A model carries no \<^verbatim>\<open>name\<close> option, so that \<^verbatim>\<open>getOrGenerateIndexName\<close> generates the
  name: the options are nil, or looking the name up gives \<^verbatim>\<open>bson.ErrElementNotFound\<close>.
\<close>

definition no_explicit_name :: "IndexModel \<Rightarrow> bool" where
  "no_explicit_name m =
     (case Options m of
        None \<Rightarrow> True
      | Some opts \<Rightarrow> LookupErr opts ''name'' = Inl ErrElementNotFound)"

text \<open>
  The name the claim describes, in the spec's words: every key with its value's text as
  key, underscore, value, and these joined in order, separated by underscores.
\<close>

definition key_underscore_value :: "string \<times> string \<Rightarrow> string" where
  "key_underscore_value kv = fst kv @ ''_'' @ snd kv"

fun separated_by_underscores :: "string list \<Rightarrow> string" where
  "separated_by_underscores [] = []"
| "separated_by_underscores [x] = x"
| "separated_by_underscores (x # y # zs) = x @ ''_'' @ separated_by_underscores (y # zs)"

text \<open>The integer a string of decimal digits with an optional minus sign denotes.\<close>

definition digit_value :: "char \<Rightarrow> nat" where
  "digit_value c = of_char c - 48"

definition decimal_nat :: "string \<Rightarrow> nat" where
  "decimal_nat s = foldl (\<lambda>a c. 10 * a + digit_value c) 0 s"

fun decimal_int :: "string \<Rightarrow> int" where
  "decimal_int [] = 0"
| "decimal_int (c # cs) = (if c = CHR ''-'' then - int (decimal_nat cs) else int (decimal_nat (c # cs)))"

definition is_digit :: "char \<Rightarrow> bool" where
  "is_digit c = (c \<in> set ''0123456789'')"

text \<open>Which kind an event, an error or an option is.\<close>

fun is_SelectServerCall :: "event \<Rightarrow> bool" where
  "is_SelectServerCall (SelectServerCall s) = True"
| "is_SelectServerCall _ = False"

fun is_AggregateRoundTrip :: "event \<Rightarrow> bool" where
  "is_AggregateRoundTrip (AggregateRoundTrip a d c) = True"
| "is_AggregateRoundTrip _ = False"

fun is_CommandError :: "error \<Rightarrow> bool" where
  "is_CommandError (CommandError c m) = True"
| "is_CommandError _ = False"

fun is_OptWriteConcern :: "FindOneAndUpdateOptioner \<Rightarrow> bool" where
  "is_OptWriteConcern (OptWriteConcern e a) = True"
| "is_OptWriteConcern _ = False"

text \<open>
  The stream's cursor is \<open>c\<close>, it has nothing more to give, and after the failed advance
  its \<^verbatim>\<open>Err\<close> reports \<open>e\<close>.
\<close>

definition advance_fails_with :: "changeStream \<Rightarrow> Cursor \<Rightarrow> error \<Rightarrow> bool" where
  "advance_fails_with cs c e =
     (cursor cs = Some c \<and> \<not> fst (cursor_Next c) \<and> cursor_Err (snd (cursor_Next c)) = Some e)"

text \<open>
  The commands a resume builds for a stream \<open>cs\<close> whose cursor is \<open>c\<close>: the
  \<^verbatim>\<open>killCursors\<close> for that cursor, and the aggregate over the pipeline whose first stage
  is rebuilt from the options with the resume directive set.
\<close>

definition resume_killCursors :: "changeStream \<Rightarrow> Cursor \<Rightarrow> KillCursors" where
  "resume_killCursors cs c =
     \<lparr>kc_NS = \<lparr>DB = DB (namespace (coll cs)), Collection = Collection (namespace (coll cs))\<rparr>,
      kc_IDs = [cursor_ID c]\<rparr>"

definition resume_aggregate :: "changeStream \<Rightarrow> Aggregate_cmd" where
  "resume_aggregate cs =
     \<lparr>agg_NS = \<lparr>DB = DB (namespace (coll cs)), Collection = Collection (namespace (coll cs))\<rparr>,
      agg_Pipeline =
        (pipeline cs)[0 := changeStreamStage
           (set_resume_directive (options cs) (OptResumeAfter (resumeToken cs)))],
      agg_ReadPref = None, agg_Session = None\<rparr>"

text \<open>
  The stream as a resume leaves its options and pipeline: the resume directive set, and
  the first stage rebuilt from the options.
\<close>

definition resumed :: "changeStream \<Rightarrow> changeStream" where
  "resumed cs =
     cs\<lparr>options := set_resume_directive (options cs) (OptResumeAfter (resumeToken cs)),
        pipeline := (pipeline cs)[0 := changeStreamStage
           (set_resume_directive (options cs) (OptResumeAfter (resumeToken cs)))]\<rparr>"




section \<open>Example inputs\<close>

text \<open>
  Cursors: one that is exhausted and reports the error \<open>e\<close>; one with a change document
  to give; one with a change document to give that reports error 43 once exhausted; one
  standing on a decoded document.
\<close>

definition failed_cursor :: "error \<Rightarrow> Cursor" where
  "failed_cursor e =
     \<lparr>cursor_ID = 7, pending = [], current = Inr [], cursor_Err = Some e, closed = False\<rparr>"

definition fresh_cursor :: Cursor where
  "fresh_cursor =
     \<lparr>cursor_ID = 8,
      pending = [Inr [(''_id'', VDocument [(''_data'', VString ''t2'')])]],
      current = Inr [], cursor_Err = None, closed = False\<rparr>"

definition flaky_cursor :: Cursor where
  "flaky_cursor =
     \<lparr>cursor_ID = 9,
      pending = [Inr [(''_id'', VDocument [(''_data'', VString ''t2'')])]],
      current = Inr [],
      cursor_Err = Some (CommandError 43 ''cursor not found''),
      closed = False\<rparr>"

definition decoded_cursor :: "bson_document \<Rightarrow> Cursor" where
  "decoded_cursor doc =
     \<lparr>cursor_ID = 7, pending = [], current = Inr doc, cursor_Err = None, closed = False\<rparr>"

text \<open>
  A stream over a two-stage pipeline whose cursor has failed with \<open>e\<close>, holding the
  resume token \<open>tok\<close>.
\<close>

definition example_stream :: "error \<Rightarrow> bson_document option \<Rightarrow> changeStream" where
  "example_stream e tok =
     \<lparr>pipeline = [changeStreamStage [], VDocument [(''$match'', VDocument [])]],
      options = [],
      coll = \<lparr>namespace = \<lparr>DB = ''db'', Collection = ''events''\<rparr>,
              coll_readSelector = Selector ''read''\<rparr>,
      cursor = Some (failed_cursor e),
      resumeToken = tok,
      err = None\<rparr>"

text \<open>
  Environments of \<^verbatim>\<open>Next\<close>: one where everything succeeds (and the \<^verbatim>\<open>killCursors\<close> round
  trip reports an error), one where server selection fails, one where the selected server
  gives no connection, and one where the aggregate gives a cursor that fails again.
\<close>

definition healthy_world :: cs_world where
  "healthy_world =
     \<lparr>topology =
        \<lparr>SelectServer = (\<lambda>sel. Inr \<lparr>Description = ServerDesc ''s2'', Connection = Inr (Conn 2)\<rparr>),
         SupportsSessions = True\<rparr>,
      KillCursors_RoundTrip = (\<lambda>k d c. ([], Some (OtherError ''cursor not found''))),
      Aggregate_RoundTrip = (\<lambda>a d ss c. (Some fresh_cursor, None))\<rparr>"

definition unreachable_world :: cs_world where
  "unreachable_world =
     healthy_world\<lparr>topology :=
        \<lparr>SelectServer = (\<lambda>sel. Inl (OtherError ''server selection timeout'')),
         SupportsSessions = True\<rparr>\<rparr>"

definition refusing_world :: cs_world where
  "refusing_world =
     healthy_world\<lparr>topology :=
        \<lparr>SelectServer = (\<lambda>sel. Inr \<lparr>Description = ServerDesc ''s3'',
                                       Connection = Inl (OtherError ''connection refused'')\<rparr>),
         SupportsSessions = True\<rparr>\<rparr>"

definition flaky_world :: cs_world where
  "flaky_world = healthy_world\<lparr>Aggregate_RoundTrip := (\<lambda>a d ss c. (Some flaky_cursor, None))\<rparr>"

text \<open>
  For the dispatch functions: a topology whose selection succeeds, an environment of
  \<^verbatim>\<open>Aggregate\<close>, an aggregate command over a given pipeline, two write-concern options,
  an environment of \<^verbatim>\<open>FindOneAndUpdate\<close> whose round trip panics and whose override
  converts to the majority option, and a command with given options.
\<close>

definition example_topology :: Topology where
  "example_topology =
     \<lparr>SelectServer = (\<lambda>sel. Inr \<lparr>Description = ServerDesc ''s1'', Connection = Inr (Conn 1)\<rparr>),
      SupportsSessions = False\<rparr>"

text \<open>
  A topology with two servers: the write selector gives the primary, every other selector
  the secondary.
\<close>

definition two_server_topology :: Topology where
  "two_server_topology =
     \<lparr>SelectServer = (\<lambda>sel. if sel = Selector ''write''
                             then Inr \<lparr>Description = ServerDesc ''primary'', Connection = Inr (Conn 1)\<rparr>
                             else Inr \<lparr>Description = ServerDesc ''secondary'', Connection = Inr (Conn 2)\<rparr>),
      SupportsSessions = False\<rparr>"

definition example_agg_world :: agg_world where
  "example_agg_world =
     \<lparr>getReadPrefBasedOnTransaction = (\<lambda>rp s. Inr rp),
      NewClientSession = (\<lambda>p u. Inr (ImplicitSession 0)),
      cmd_RoundTrip = (\<lambda>a d ss c. (Some fresh_cursor, None))\<rparr>"

definition example_aggregate :: "bson_value list \<Rightarrow> Aggregate_cmd" where
  "example_aggregate p =
     \<lparr>agg_NS = \<lparr>DB = ''db'', Collection = ''events''\<rparr>, agg_Pipeline = p,
      agg_ReadPref = None, agg_Session = None\<rparr>"

definition majority_option :: FindOneAndUpdateOptioner where
  "majority_option =
     OptWriteConcern (''writeConcern'', VDocument [(''w'', VString ''majority'')]) True"

definition unacknowledged_option :: FindOneAndUpdateOptioner where
  "unacknowledged_option =
     OptWriteConcern (''writeConcern'', VDocument [(''w'', VInt32 0)]) False"

definition panicking_fou_world :: fou_world where
  "panicking_fou_world =
     \<lparr>writeConcernOption = (\<lambda>wc. Inr majority_option),
      FindOneAndUpdate_RoundTrip = (\<lambda>c d conn. Panicked)\<rparr>"

definition example_update :: "FindOneAndUpdateOptioner list \<Rightarrow> FindOneAndUpdate_cmd" where
  "example_update opts =
     \<lparr>fou_NS = \<lparr>DB = ''db'', Collection = ''events''\<rparr>,
      fou_Query = [(''x'', VInt32 1)],
      fou_Update = [(''$set'', VDocument [(''x'', VInt32 2)])],
      fou_Opts = opts\<rparr>"

section \<open>Index names: results\<close>

subsection \<open>The loop\<close>

lemma index_value_string_error:
  "index_value_string v = Inl e \<Longrightarrow> e = ErrInvalidIndexValue"
  by (cases v) (simp_all add: index_value_string_def)

lemma index_value_string_rejects:
  "Type v \<noteq> TypeInt32 \<Longrightarrow> Type v \<noteq> TypeInt64 \<Longrightarrow> Type v \<noteq> TypeString
     \<Longrightarrow> index_value_string v = Inl ErrInvalidIndexValue"
  by (cases v) (simp_all add: index_value_string_def)

lemma generate_loop_rejects:
  "(k, v) \<in> set es \<Longrightarrow> index_value_string v = Inl ErrInvalidIndexValue
     \<Longrightarrow> generate_loop es first name = Inl ErrInvalidIndexValue"
proof (induction es arbitrary: first name)
  case Nil
  then show ?case by simp
next
  case (Cons a es)
  obtain k' v' where a: "a = (k', v')" by (cases a)
  show ?case
  proof (cases "index_value_string v'")
    case (Inl e)
    then show ?thesis using a index_value_string_error [OF Inl] by simp
  next
    case (Inr s)
    with Cons.prems have "(k, v) \<in> set es" using a by auto
    then show ?thesis using Cons.IH Cons.prems(2) a Inr by simp
  qed
qed

lemma generated_name:
  "no_explicit_name m \<Longrightarrow> getOrGenerateIndexName m = generate_loop (Keys m) True []"
  by (auto simp: no_explicit_name_def getOrGenerateIndexName_def split: option.splits)

lemma generate_loop_joins:
  "map (\<lambda>kv. index_value_string (snd kv)) es = map Inr texts \<Longrightarrow>
   generate_loop es first name
     = Inr (name @ (if first \<or> es = [] then [] else ''_'')
             @ separated_by_underscores (map key_underscore_value (zip (map fst es) texts)))"
proof (induction es arbitrary: first name texts)
  case Nil
  then show ?case by simp
next
  case (Cons a es)
  obtain k v where a: "a = (k, v)" by (cases a)
  from Cons.prems obtain t ts where texts: "texts = t # ts"
    and t: "index_value_string v = Inr t"
    and ts: "map (\<lambda>kv. index_value_string (snd kv)) es = map Inr ts"
    using a by (cases texts) auto
  note ih = Cons.IH [OF ts, of False]
  show ?case
  proof (cases es)
    case Nil
    with ts have "ts = []" by simp
    with Nil a t texts show ?thesis
      by (simp add: key_underscore_value_def)
  next
    case (Cons b es')
    with ts obtain u us where "ts = u # us" by (cases ts) auto
    with Cons a t texts ih show ?thesis
      by (simp add: key_underscore_value_def)
  qed
qed

subsection \<open>Decimal digits\<close>

lemma digit_char_cases:
  "d < 10 \<Longrightarrow> d = 0 \<or> d = 1 \<or> d = 2 \<or> d = 3 \<or> d = 4 \<or> d = 5 \<or> d = 6 \<or> d = 7 \<or> d = 8 \<or> d = (9::nat)"
  by arith

lemma digit_value_digit_char: "d < 10 \<Longrightarrow> digit_value (digit_char d) = d"
  using digit_char_cases [of d] by (auto simp: digit_value_def digit_char_def)

lemma is_digit_digit_char: "d < 10 \<Longrightarrow> is_digit (digit_char d)"
  using digit_char_cases [of d] by (auto simp: is_digit_def digit_char_def)

lemma decimal_nat_snoc: "decimal_nat (s @ [c]) = 10 * decimal_nat s + digit_value c"
  by (simp add: decimal_nat_def)

lemma decimal_nat_string_of_nat: "decimal_nat (string_of_nat n) = n"
proof (induction n rule: string_of_nat.induct)
  case (1 n)
  show ?case
  proof (cases "n < 10")
    case True
    then show ?thesis
      by (simp add: string_of_nat.simps [of n] decimal_nat_def digit_value_digit_char)
  next
    case False
    then have "decimal_nat (string_of_nat (n div 10)) = n div 10" using 1 by simp
    with False show ?thesis
      by (simp add: string_of_nat.simps [of n] decimal_nat_snoc digit_value_digit_char)
  qed
qed

lemma string_of_nat_digits: "list_all is_digit (string_of_nat n)"
proof (induction n rule: string_of_nat.induct)
  case (1 n)
  show ?case
  proof (cases "n < 10")
    case True
    then show ?thesis
      by (simp add: string_of_nat.simps [of n] is_digit_digit_char)
  next
    case False
    then have "list_all is_digit (string_of_nat (n div 10))" using 1 by simp
    with False show ?thesis
      by (simp add: string_of_nat.simps [of n] is_digit_digit_char)
  qed
qed

lemma string_of_nat_nonempty: "string_of_nat n \<noteq> []"
  by (simp add: string_of_nat.simps [of n])

lemma string_of_nat_no_minus: "hd (string_of_nat n) \<noteq> CHR ''-''"
proof -
  have "is_digit (hd (string_of_nat n))"
    using string_of_nat_digits [of n] string_of_nat_nonempty [of n]
    by (cases "string_of_nat n") simp_all
  then show ?thesis by (auto simp: is_digit_def)
qed

lemma string_of_nat_no_leading_zero: "0 < n \<Longrightarrow> hd (string_of_nat n) \<noteq> CHR ''0''"
proof (induction n rule: string_of_nat.induct)
  case (1 n)
  show ?case
  proof (cases "n < 10")
    case True
    with "1.prems" digit_char_cases [of n] show ?thesis
      by (auto simp: string_of_nat.simps [of n] digit_char_def)
  next
    case False
    then have "0 < n div 10" by simp
    with False 1 have "hd (string_of_nat (n div 10)) \<noteq> CHR ''0''" by simp
    with False string_of_nat_nonempty [of "n div 10"] show ?thesis
      by (simp add: string_of_nat.simps [of n])
  qed
qed

lemma decimal_int_Sprintf_d: "decimal_int (Sprintf_d i) = i"
proof (cases "i < 0")
  case True
  then show ?thesis
    by (simp add: Sprintf_d_def decimal_nat_string_of_nat)
next
  case False
  obtain c cs where s: "string_of_nat (nat i) = c # cs"
    using string_of_nat_nonempty [of "nat i"] by (cases "string_of_nat (nat i)") auto
  with string_of_nat_no_minus [of "nat i"] have "c \<noteq> CHR ''-''" by simp
  with s have "decimal_int (string_of_nat (nat i)) = int (decimal_nat (string_of_nat (nat i)))"
    by simp
  with False show ?thesis
    by (simp add: Sprintf_d_def decimal_nat_string_of_nat)
qed

subsection \<open>The name\<close>

text \<open>
  Claim C9. When the model carries no \<^verbatim>\<open>name\<close> option and every key has a value with a
  text (a string gives itself, an int32 or int64 its decimal digits, with a minus sign
  when negative and no leading zero), the name is exactly the keys in order, each written
  key, underscore, value, separated by underscores; so the name depends on the key
  document alone, and the keys \<^verbatim>\<open>{"a": 1, "b": "text"}\<close> give \<^verbatim>\<open>a_1_b_text\<close>. A key whose value
  is not a string, an int32 or an int64 gives \<^verbatim>\<open>ErrInvalidIndexValue\<close>. Options whose
  \<^verbatim>\<open>name\<close> entry is not a string give \<^verbatim>\<open>ErrNonStringIndexName\<close>, and a \<^verbatim>\<open>name\<close> entry
  that is a string is the name.
\<close>

theorem index_name_generation:
  "(no_explicit_name m \<and> map (\<lambda>kv. index_value_string (snd kv)) (Keys m) = map Inr texts
      \<longrightarrow> getOrGenerateIndexName m
            = Inr (separated_by_underscores
                     (map key_underscore_value (zip (map fst (Keys m)) texts))))
   \<and> index_value_string (VString s) = Inr s
   \<and> index_value_string (VInt32 n32) = Inr (Sprintf_d (sint n32))
   \<and> index_value_string (VInt64 n64) = Inr (Sprintf_d (sint n64))
   \<and> decimal_int (Sprintf_d i) = i
   \<and> list_all is_digit (if i < 0 then tl (Sprintf_d i) else Sprintf_d i)
   \<and> (i \<noteq> 0 \<longrightarrow> hd (if i < 0 then tl (Sprintf_d i) else Sprintf_d i) \<noteq> CHR ''0'')
   \<and> (no_explicit_name m \<and> no_explicit_name m' \<and> Keys m = Keys m'
      \<longrightarrow> getOrGenerateIndexName m = getOrGenerateIndexName m')
   \<and> (no_explicit_name \<lparr>Keys = [(''a'', x), (''b'', VString ''text'')], Options = opts\<rparr>
        \<and> (x = VInt32 1 \<or> x = VInt64 1)
      \<longrightarrow> getOrGenerateIndexName \<lparr>Keys = [(''a'', x), (''b'', VString ''text'')], Options = opts\<rparr>
            = Inr ''a_1_b_text'')
   \<and> (no_explicit_name m \<and> (k, v) \<in> set (Keys m)
        \<and> Type v \<noteq> TypeString \<and> Type v \<noteq> TypeInt32 \<and> Type v \<noteq> TypeInt64
      \<longrightarrow> getOrGenerateIndexName m = Inl ErrInvalidIndexValue)
   \<and> (Options m = Some os \<and> LookupErr os ''name'' = Inr nameVal \<and> Type nameVal \<noteq> TypeString
      \<longrightarrow> getOrGenerateIndexName m = Inl ErrNonStringIndexName)
   \<and> (Options m = Some os \<and> LookupErr os ''name'' = Inr (VString s)
      \<longrightarrow> getOrGenerateIndexName m = Inr s)"
proof (intro conjI impI)
  assume h: "no_explicit_name m \<and> map (\<lambda>kv. index_value_string (snd kv)) (Keys m) = map Inr texts"
  then have "generate_loop (Keys m) True []
               = Inr (separated_by_underscores
                        (map key_underscore_value (zip (map fst (Keys m)) texts)))"
    using generate_loop_joins [of "Keys m" texts True "[]"] by simp
  with h show "getOrGenerateIndexName m
            = Inr (separated_by_underscores
                     (map key_underscore_value (zip (map fst (Keys m)) texts)))"
    by (simp add: generated_name)
next
  show "index_value_string (VString s) = Inr s" by (simp add: index_value_string_def)
  show "index_value_string (VInt32 n32) = Inr (Sprintf_d (sint n32))"
    by (simp add: index_value_string_def)
  show "index_value_string (VInt64 n64) = Inr (Sprintf_d (sint n64))"
    by (simp add: index_value_string_def)
  show "decimal_int (Sprintf_d i) = i" by (rule decimal_int_Sprintf_d)
  show "list_all is_digit (if i < 0 then tl (Sprintf_d i) else Sprintf_d i)"
    by (simp add: Sprintf_d_def string_of_nat_digits)
next
  assume "i \<noteq> 0"
  then show "hd (if i < 0 then tl (Sprintf_d i) else Sprintf_d i) \<noteq> CHR ''0''"
    by (simp add: Sprintf_d_def string_of_nat_no_leading_zero)
next
  assume "no_explicit_name m \<and> no_explicit_name m' \<and> Keys m = Keys m'"
  then show "getOrGenerateIndexName m = getOrGenerateIndexName m'"
    by (simp add: generated_name)
next
  let ?m = "\<lparr>Keys = [(''a'', x), (''b'', VString ''text'')], Options = opts\<rparr>"
  assume h: "no_explicit_name ?m \<and> (x = VInt32 1 \<or> x = VInt64 1)"
  have d: "Sprintf_d 1 = ''1''"
    by (simp add: Sprintf_d_def string_of_nat.simps digit_char_def)
  from h have "generate_loop (Keys ?m) True [] = Inr ''a_1_b_text''"
    by (auto simp: index_value_string_def d)
  with h show "getOrGenerateIndexName ?m = Inr ''a_1_b_text''"
    by (simp add: generated_name)
next
  assume h: "no_explicit_name m \<and> (k, v) \<in> set (Keys m)
        \<and> Type v \<noteq> TypeString \<and> Type v \<noteq> TypeInt32 \<and> Type v \<noteq> TypeInt64"
  then have "index_value_string v = Inl ErrInvalidIndexValue"
    by (simp add: index_value_string_rejects)
  moreover from h have "(k, v) \<in> set (Keys m)" by simp
  ultimately have "generate_loop (Keys m) True [] = Inl ErrInvalidIndexValue"
    by (rule generate_loop_rejects [rotated])
  with h show "getOrGenerateIndexName m = Inl ErrInvalidIndexValue"
    by (simp add: generated_name)
next
  assume "Options m = Some os \<and> LookupErr os ''name'' = Inr nameVal \<and> Type nameVal \<noteq> TypeString"
  then show "getOrGenerateIndexName m = Inl ErrNonStringIndexName"
    by (cases nameVal) (simp_all add: getOrGenerateIndexName_def)
next
  assume "Options m = Some os \<and> LookupErr os ''name'' = Inr (VString s)"
  then show "getOrGenerateIndexName m = Inr s"
    by (simp add: getOrGenerateIndexName_def)
qed

theorem index_name_generation_witness:
  "getOrGenerateIndexName \<lparr>Keys = [(''a'', VInt32 1), (''b'', VString ''text'')], Options = None\<rparr>
     = Inr ''a_1_b_text''
   \<and> getOrGenerateIndexName \<lparr>Keys = [(''zip'', VInt32 (- 1))], Options = None\<rparr> = Inr ''zip_-1''
   \<and> getOrGenerateIndexName
        \<lparr>Keys = [(''x'', VInt64 10), (''y'', VString ''2dsphere''), (''z'', VInt32 (- 1))],
         Options = Some [(''unique'', VBoolean True)]\<rparr>
     = Inr ''x_10_y_2dsphere_z_-1''
   \<and> getOrGenerateIndexName \<lparr>Keys = [(''a'', VInt32 1), (''b'', VString ''text'')],
        Options = Some [(''unique'', VBoolean True)]\<rparr>
     = getOrGenerateIndexName \<lparr>Keys = [(''a'', VInt32 1), (''b'', VString ''text'')], Options = None\<rparr>
   \<and> getOrGenerateIndexName \<lparr>Keys = [(''a'', VInt32 1), (''b'', VBoolean True)], Options = None\<rparr>
     = Inl ErrInvalidIndexValue
   \<and> getOrGenerateIndexName \<lparr>Keys = [(''a'', VInt32 1)], Options = Some [(''name'', VInt32 7)]\<rparr>
     = Inl ErrNonStringIndexName
   \<and> getOrGenerateIndexName \<lparr>Keys = [(''a'', VInt32 1)], Options = Some [(''name'', VString ''mine'')]\<rparr>
     = Inr ''mine''"
proof -
  note t = index_name_generation
  let ?ks = "[(''a'', VInt32 1), (''b'', VString ''text'')]"
  let ?m = "\<lparr>Keys = ?ks, Options = None\<rparr>"
  let ?m' = "\<lparr>Keys = ?ks, Options = Some [(''unique'', VBoolean True)]\<rparr>"
  let ?zip = "\<lparr>Keys = [(''zip'', VInt32 (- 1))], Options = None\<rparr>"
  let ?xyz = "\<lparr>Keys = [(''x'', VInt64 10), (''y'', VString ''2dsphere''), (''z'', VInt32 (- 1))],
               Options = Some [(''unique'', VBoolean True)]\<rparr>"
  let ?bad = "\<lparr>Keys = [(''a'', VInt32 1), (''b'', VBoolean True)], Options = None\<rparr>"
  let ?named = "\<lparr>Keys = [(''a'', VInt32 1)], Options = Some [(''name'', VInt32 7)]\<rparr>"
  let ?mine = "\<lparr>Keys = [(''a'', VInt32 1)], Options = Some [(''name'', VString ''mine'')]\<rparr>"
  have n: "no_explicit_name ?m" "no_explicit_name ?m'" "no_explicit_name ?bad"
    "no_explicit_name ?zip" "no_explicit_name ?xyz"
    by (simp_all add: no_explicit_name_def)
  have d: "Sprintf_d 1 = ''1''" "Sprintf_d (- 1) = ''-1''" "Sprintf_d 10 = ''10''"
    by (simp_all add: Sprintf_d_def string_of_nat.simps digit_char_def)
  have s: "sint (- 1 :: 32 word) = - 1" "sint (1 :: 32 word) = 1" "sint (10 :: 64 word) = 10"
    by simp_all
  have 0: "getOrGenerateIndexName ?zip = Inr ''zip_-1''"
    using t [THEN conjunct1, rule_format, of ?zip "[''-1'']"] n
    by (simp add: index_value_string_def d s key_underscore_value_def)
  have x: "getOrGenerateIndexName ?xyz = Inr ''x_10_y_2dsphere_z_-1''"
    using t [THEN conjunct1, rule_format, of ?xyz "[''10'', ''2dsphere'', ''-1'']"] n
    by (simp add: index_value_string_def d s key_underscore_value_def)
  have 1: "getOrGenerateIndexName ?m = Inr ''a_1_b_text''"
    using t [THEN conjunct1, rule_format, of ?m "[''1'', ''text'']"] n
    by (simp add: index_value_string_def d s key_underscore_value_def)
  have 2: "getOrGenerateIndexName ?m' = getOrGenerateIndexName ?m"
    using t [of ?m' _ _ _ _ _ ?m] n
    by simp
  have 3: "getOrGenerateIndexName ?bad = Inl ErrInvalidIndexValue"
    using t [of ?bad _ _ _ _ _ _ _ _ "''b''" "VBoolean True"] n
    by simp
  have 4: "getOrGenerateIndexName ?named = Inl ErrNonStringIndexName"
    using t [of ?named _ _ _ _ _ _ _ _ _ _ "[(''name'', VInt32 7)]" "VInt32 7"]
    by simp
  have 5: "getOrGenerateIndexName ?mine = Inr ''mine''"
    using t [of ?mine _ "''mine''" _ _ _ _ _ _ _ _ "[(''name'', VString ''mine'')]"]
    by simp
  show ?thesis using 0 x 1 2 3 4 5 by simp
qed

section \<open>Change streams: results\<close>

subsection \<open>Entering the resume\<close>

lemma cursor_Next_False: "\<not> fst (cursor_Next c) \<Longrightarrow> cursor_Next c = (False, c)"
  by (simp add: cursor_Next_def split: list.splits)

lemma advance_fails_withD:
  assumes "advance_fails_with cs c e"
  shows "cursor cs = Some c" and "cursor_Next c = (False, c)" and "cursor_Err c = Some e"
proof -
  from assms show "cursor cs = Some c" by (simp add: advance_fails_with_def)
  from assms have "\<not> fst (cursor_Next c)" by (simp add: advance_fails_with_def)
  then show n: "cursor_Next c = (False, c)" by (rule cursor_Next_False)
  from assms have "cursor_Err (snd (cursor_Next c)) = Some e" by (simp add: advance_fails_with_def)
  with n show "cursor_Err c = Some e" by simp
qed

lemma Next_enters_resume:
  assumes "advance_fails_with cs c e" and "\<not> returns_early e"
  shows "changeStream_Next w cs = resume w cs c [CursorNextCall (cursor_ID c)]"
proof -
  from assms(1) have c: "cursor cs = Some c" and n: "cursor_Next c = (False, c)"
    and e: "cursor_Err c = Some e"
    by (simp_all add: advance_fails_withD)
  from c have u: "cs\<lparr>cursor := Some c\<rparr> = cs" by simp
  show ?thesis
    by (simp add: changeStream_Next_def c n e assms(2) u)
qed

lemma Next_returns_early:
  assumes "advance_fails_with cs c e" and "returns_early e"
  shows "changeStream_Next w cs = (Returned (False, cs), [CursorNextCall (cursor_ID c)])"
proof -
  from assms(1) have c: "cursor cs = Some c" and n: "cursor_Next c = (False, c)"
    and e: "cursor_Err c = Some e"
    by (simp_all add: advance_fails_withD)
  from c have u: "cs\<lparr>cursor := Some c\<rparr> = cs" by simp
  show ?thesis
    by (simp add: changeStream_Next_def c n e assms(2) u)
qed

lemma resume_selection_fails:
  "SelectServer (topology w) (coll_readSelector (coll cs)) = Inl e \<Longrightarrow>
   resume w cs c tr =
     (Returned (False,
        cs\<lparr>options := set_resume_directive (options cs) (OptResumeAfter (resumeToken cs)),
           err := Some e\<rparr>),
      tr @ [SelectServerCall (coll_readSelector (coll cs))])"
  by (simp add: resume_def)

lemma resume_connection_fails:
  "SelectServer (topology w) (coll_readSelector (coll cs)) = Inr ss \<Longrightarrow> Connection ss = Inl e \<Longrightarrow>
   resume w cs c tr =
     (Returned (False,
        cs\<lparr>options := set_resume_directive (options cs) (OptResumeAfter (resumeToken cs)),
           err := Some e\<rparr>),
      tr @ [SelectServerCall (coll_readSelector (coll cs)), ConnectionCall (Description ss)])"
  by (simp add: resume_def)

subsection \<open>The events of a resume\<close>

lemma resume_trace_selects:
  "take (Suc (length tr)) (snd (resume w cs c tr))
     = tr @ [SelectServerCall (coll_readSelector (coll cs))]"
  by (simp add: resume_def Let_def split: sum.splits option.splits prod.splits)

lemma resume_trace_connected:
  assumes "SelectServer (topology w) (coll_readSelector (coll cs)) = Inr ss"
    and "Connection ss = Inr conn"
    and "pipeline cs \<noteq> []"
  shows "snd (resume w cs c tr)
     = tr @ [SelectServerCall (coll_readSelector (coll cs)),
             ConnectionCall (Description ss),
             KillCursorsRoundTrip (resume_killCursors cs c) (Description ss) conn,
             AggregateRoundTrip (resume_aggregate cs) (Description ss) conn]
          @ (case Aggregate_RoundTrip w (resume_aggregate cs) (Description ss) ss conn of
               (Some c', None) \<Rightarrow> [CursorNextCall (cursor_ID c'), ConnClose conn]
             | _ \<Rightarrow> [ConnClose conn])"
  using assms
  by (simp add: resume_def Let_def Array_Set_def resume_killCursors_def resume_aggregate_def
           split: sum.splits option.splits prod.splits)

lemma resume_connected:
  assumes "SelectServer (topology w) (coll_readSelector (coll cs)) = Inr ss"
    and "Connection ss = Inr conn"
    and "pipeline cs \<noteq> []"
  shows "resume w cs c tr =
     (case Aggregate_RoundTrip w (resume_aggregate cs) (Description ss) ss conn of
        (Some c', None) \<Rightarrow>
          (Returned (fst (cursor_Next c'),
             (resumed cs)\<lparr>cursor := Some (snd (cursor_Next c')), err := None\<rparr>),
           tr @ [SelectServerCall (coll_readSelector (coll cs)),
                 ConnectionCall (Description ss),
                 KillCursorsRoundTrip (resume_killCursors cs c) (Description ss) conn,
                 AggregateRoundTrip (resume_aggregate cs) (Description ss) conn,
                 CursorNextCall (cursor_ID c'),
                 ConnClose conn])
      | (None, None) \<Rightarrow>
          (Panicked,
           tr @ [SelectServerCall (coll_readSelector (coll cs)),
                 ConnectionCall (Description ss),
                 KillCursorsRoundTrip (resume_killCursors cs c) (Description ss) conn,
                 AggregateRoundTrip (resume_aggregate cs) (Description ss) conn,
                 ConnClose conn])
      | (cur, Some e') \<Rightarrow>
          (Returned (False, (resumed cs)\<lparr>cursor := cur, err := Some e'\<rparr>),
           tr @ [SelectServerCall (coll_readSelector (coll cs)),
                 ConnectionCall (Description ss),
                 KillCursorsRoundTrip (resume_killCursors cs c) (Description ss) conn,
                 AggregateRoundTrip (resume_aggregate cs) (Description ss) conn,
                 ConnClose conn]))"
  using assms
  by (simp add: resume_def Let_def Array_Set_def resume_killCursors_def resume_aggregate_def
        resumed_def split_def
        split: sum.splits option.splits prod.splits)

lemma resume_stored_error:
  assumes "fst (resume w cs c tr) = Returned (b, cs')"
  shows "err cs' =
     (case SelectServer (topology w) (coll_readSelector (coll cs)) of
        Inl e1 \<Rightarrow> Some e1
      | Inr ss \<Rightarrow>
          (case Connection ss of
             Inl e1 \<Rightarrow> Some e1
           | Inr conn \<Rightarrow>
               snd (Aggregate_RoundTrip w (resume_aggregate cs) (Description ss) ss conn)))"
    and "resumeToken cs' = resumeToken cs"
  using assms
  by (auto simp: resume_def Let_def Array_Set_def resume_aggregate_def
           split: sum.splits option.splits prod.splits if_splits)

lemma resume_ignores_killCursors:
  "resume (w\<lparr>KillCursors_RoundTrip := k\<rparr>) cs c tr = resume w cs c tr"
  by (simp add: resume_def Let_def split: sum.splits option.splits prod.splits)

lemma Next_ignores_killCursors:
  "changeStream_Next (w\<lparr>KillCursors_RoundTrip := k\<rparr>) cs = changeStream_Next w cs"
  by (simp add: changeStream_Next_def resume_ignores_killCursors Let_def split: option.splits prod.splits)

subsection \<open>The resume directive\<close>














subsection \<open>What one call changes\<close>

lemma resume_Returned:
  assumes "fst (resume w cs c tr) = Returned (b, cs')"
  shows "options cs' = set_resume_directive (options cs) (OptResumeAfter (resumeToken cs))"
    and "pipeline cs' = pipeline cs
         \<or> (pipeline cs \<noteq> [] \<and> pipeline cs' = (pipeline cs)[0 := changeStreamStage (options cs')])"
    and "list_ex is_AggregateRoundTrip (snd (resume w cs c tr)) \<and> \<not> list_ex is_AggregateRoundTrip tr
         \<longrightarrow> pipeline cs' = (pipeline cs)[0 := changeStreamStage (options cs')]"
  using assms
  by (auto simp: resume_def Let_def Array_Set_def
           split: sum.splits option.splits prod.splits if_splits)











subsection \<open>Evaluating the examples\<close>

lemmas stream_evaluation =
  changeStream_Next_def resume_def changeStream_DecodeBytes_def changeStream_Err_def
  cursor_Next_def cursor_DecodeBytes_def MutableDocument_def Array_Set_def Let_def
  changeStreamStage_def set_resume_directive_def returns_early_def
  errorCodeNotMaster_def errorCodeCursorNotFound_def advance_fails_with_def
  example_stream_def failed_cursor_def fresh_cursor_def flaky_world_def flaky_cursor_def
  healthy_world_def unreachable_world_def refusing_world_def
  resume_killCursors_def resume_aggregate_def


subsection \<open>Which errors are resumed\<close>

text \<open>
  Claim C1, the counterexample. The cursor fails with a network error, which is not a
  \<^verbatim>\<open>command.Error\<close>. \<^verbatim>\<open>Next\<close> selects a server again, sends the aggregate again and
  returns true; no error is stored in the stream, and \<^verbatim>\<open>Err\<close> reports none.
\<close>

theorem network_error_is_resumed:
  "advance_fails_with
     (example_stream (OtherError ''connection reset by peer'') (Some [(''_data'', VString ''t1'')]))
     (failed_cursor (OtherError ''connection reset by peer''))
     (OtherError ''connection reset by peer'')
   \<and> \<not> is_CommandError (OtherError ''connection reset by peer'')
   \<and> changeStream_Next healthy_world
        (example_stream (OtherError ''connection reset by peer'') (Some [(''_data'', VString ''t1'')]))
     = (Returned (True,
          (example_stream (OtherError ''connection reset by peer'') (Some [(''_data'', VString ''t1'')]))
            \<lparr>pipeline :=
               [VDocument [(''$changeStream'',
                  VDocument [(''resumeAfter'', VDocument [(''_data'', VString ''t1'')])])],
                VDocument [(''$match'', VDocument [])]],
             options := [OptResumeAfter (Some [(''_data'', VString ''t1'')])],
             cursor := Some (fresh_cursor
               \<lparr>pending := [],
                current := Inr [(''_id'', VDocument [(''_data'', VString ''t2'')])]\<rparr>)\<rparr>),
        [CursorNextCall 7,
         SelectServerCall (Selector ''read''),
         ConnectionCall (ServerDesc ''s2''),
         KillCursorsRoundTrip \<lparr>kc_NS = \<lparr>DB = ''db'', Collection = ''events''\<rparr>, kc_IDs = [7]\<rparr>
           (ServerDesc ''s2'') (Conn 2),
         AggregateRoundTrip
           \<lparr>agg_NS = \<lparr>DB = ''db'', Collection = ''events''\<rparr>,
            agg_Pipeline =
              [VDocument [(''$changeStream'',
                 VDocument [(''resumeAfter'', VDocument [(''_data'', VString ''t1'')])])],
               VDocument [(''$match'', VDocument [])]],
            agg_ReadPref = None, agg_Session = None\<rparr>
           (ServerDesc ''s2'') (Conn 2),
         CursorNextCall 8,
         ConnClose (Conn 2)])
   \<and> changeStream_Err
        ((example_stream (OtherError ''connection reset by peer'') (Some [(''_data'', VString ''t1'')]))
            \<lparr>pipeline :=
               [VDocument [(''$changeStream'',
                  VDocument [(''resumeAfter'', VDocument [(''_data'', VString ''t1'')])])],
                VDocument [(''$match'', VDocument [])]],
             options := [OptResumeAfter (Some [(''_data'', VString ''t1'')])],
             cursor := Some (fresh_cursor
               \<lparr>pending := [],
                current := Inr [(''_id'', VDocument [(''_data'', VString ''t2'')])]\<rparr>)\<rparr>)
     = Returned None"
  by (simp add: stream_evaluation)

text \<open>
  Claim C1, amended. When the cursor fails to advance with error \<open>e\<close>: if \<open>e\<close> is a
  \<^verbatim>\<open>command.Error\<close> whose code is neither 10107 nor 43, \<^verbatim>\<open>Next\<close> returns false having
  called nothing but the cursor, the stream is as it was, and \<^verbatim>\<open>Err\<close> reports \<open>e\<close> (when
  no error of an earlier resume is stored in the stream). In every other case, that is a
  \<^verbatim>\<open>command.Error\<close> with code 10107 or 43 or an error that is not a \<^verbatim>\<open>command.Error\<close> at
  all, \<^verbatim>\<open>Next\<close> attempts a resume: the next thing it does is select a server; when that
  fails, the selection error is stored and \<^verbatim>\<open>Next\<close> returns false; when selection, the
  connection and the aggregate succeed, \<^verbatim>\<open>Next\<close> returns what the advance of the new cursor
  gives and no error is stored.
\<close>

theorem only_other_command_errors_end_the_stream:
  assumes "advance_fails_with cs c e"
  shows "(is_CommandError e \<and> Code e \<noteq> 10107 \<and> Code e \<noteq> 43 \<longrightarrow>
            changeStream_Next w cs = (Returned (False, cs), [CursorNextCall (cursor_ID c)])
            \<and> (err cs = None \<longrightarrow> changeStream_Err cs = Returned (Some e)))
       \<and> (\<not> is_CommandError e \<or> Code e = 10107 \<or> Code e = 43 \<longrightarrow>
            changeStream_Next w cs = resume w cs c [CursorNextCall (cursor_ID c)]
            \<and> take 2 (snd (changeStream_Next w cs))
                = [CursorNextCall (cursor_ID c), SelectServerCall (coll_readSelector (coll cs))]
            \<and> (SelectServer (topology w) (coll_readSelector (coll cs)) = Inl e1 \<longrightarrow>
                 changeStream_Next w cs
                   = (Returned (False,
                        cs\<lparr>options := set_resume_directive (options cs)
                                        (OptResumeAfter (resumeToken cs)),
                           err := Some e1\<rparr>),
                      [CursorNextCall (cursor_ID c),
                       SelectServerCall (coll_readSelector (coll cs))]))
            \<and> (SelectServer (topology w) (coll_readSelector (coll cs)) = Inr ss
                 \<and> Connection ss = Inr conn \<and> pipeline cs \<noteq> []
                 \<and> Aggregate_RoundTrip w (resume_aggregate cs) (Description ss) ss conn
                     = (Some c', None) \<longrightarrow>
                 fst (changeStream_Next w cs)
                   = Returned (fst (cursor_Next c'),
                       (resumed cs)\<lparr>cursor := Some (snd (cursor_Next c')), err := None\<rparr>)))"
proof (intro conjI impI)
  assume h: "is_CommandError e \<and> Code e \<noteq> 10107 \<and> Code e \<noteq> 43"
  then have "returns_early e"
    by (cases e) (simp_all add: returns_early_def errorCodeNotMaster_def errorCodeCursorNotFound_def)
  with assms show "changeStream_Next w cs = (Returned (False, cs), [CursorNextCall (cursor_ID c)])"
    by (rule Next_returns_early)
  assume "err cs = None"
  with advance_fails_withD(1,3) [OF assms] show "changeStream_Err cs = Returned (Some e)"
    by (simp add: changeStream_Err_def)
next
  assume h: "\<not> is_CommandError e \<or> Code e = 10107 \<or> Code e = 43"
  then have "\<not> returns_early e"
    by (cases e) (auto simp: returns_early_def errorCodeNotMaster_def errorCodeCursorNotFound_def)
  with assms show n: "changeStream_Next w cs = resume w cs c [CursorNextCall (cursor_ID c)]"
    by (rule Next_enters_resume)
  show "take 2 (snd (changeStream_Next w cs))
          = [CursorNextCall (cursor_ID c), SelectServerCall (coll_readSelector (coll cs))]"
    using resume_trace_selects [of "[CursorNextCall (cursor_ID c)]" w cs c]
    by (simp add: n numeral_2_eq_2)
  {
    assume "SelectServer (topology w) (coll_readSelector (coll cs)) = Inl e1"
    then show "changeStream_Next w cs
                   = (Returned (False,
                        cs\<lparr>options := set_resume_directive (options cs)
                                        (OptResumeAfter (resumeToken cs)),
                           err := Some e1\<rparr>),
                      [CursorNextCall (cursor_ID c),
                       SelectServerCall (coll_readSelector (coll cs))])"
      by (simp add: n resume_selection_fails)
  }
  {
    assume a: "SelectServer (topology w) (coll_readSelector (coll cs)) = Inr ss
                 \<and> Connection ss = Inr conn \<and> pipeline cs \<noteq> []
                 \<and> Aggregate_RoundTrip w (resume_aggregate cs) (Description ss) ss conn
                     = (Some c', None)"
    then have "resume w cs c [CursorNextCall (cursor_ID c)]
        = (Returned (fst (cursor_Next c'),
             (resumed cs)\<lparr>cursor := Some (snd (cursor_Next c')), err := None\<rparr>),
           [CursorNextCall (cursor_ID c)]
           @ [SelectServerCall (coll_readSelector (coll cs)),
              ConnectionCall (Description ss),
              KillCursorsRoundTrip (resume_killCursors cs c) (Description ss) conn,
              AggregateRoundTrip (resume_aggregate cs) (Description ss) conn,
              CursorNextCall (cursor_ID c'),
              ConnClose conn])"
      using resume_connected [of w cs ss conn c "[CursorNextCall (cursor_ID c)]"]
      by simp
    then show "fst (changeStream_Next w cs)
                   = Returned (fst (cursor_Next c'),
                       (resumed cs)\<lparr>cursor := Some (snd (cursor_Next c')), err := None\<rparr>)"
      by (simp add: n)
  }
qed

theorem only_other_command_errors_end_the_stream_witness:
  "changeStream_Next healthy_world (example_stream (CommandError 11600 ''interrupted'') None)
     = (Returned (False, example_stream (CommandError 11600 ''interrupted'') None),
        [CursorNextCall 7])
   \<and> changeStream_Err (example_stream (CommandError 11600 ''interrupted'') None)
     = Returned (Some (CommandError 11600 ''interrupted''))
   \<and> take 2 (snd (changeStream_Next healthy_world
                (example_stream (CommandError 10107 ''not master'') None)))
     = [CursorNextCall 7, SelectServerCall (Selector ''read'')]
   \<and> changeStream_Next unreachable_world
        (example_stream (OtherError ''connection reset by peer'') None)
     = (Returned (False,
          (example_stream (OtherError ''connection reset by peer'') None)
            \<lparr>options := [OptResumeAfter None],
             err := Some (OtherError ''server selection timeout'')\<rparr>),
        [CursorNextCall 7, SelectServerCall (Selector ''read'')])
   \<and> fst (changeStream_Next healthy_world
            (example_stream (OtherError ''connection reset by peer'') None))
     = Returned (True,
         (example_stream (OtherError ''connection reset by peer'') None)
           \<lparr>pipeline := [VDocument [(''$changeStream'', VDocument [])],
                         VDocument [(''$match'', VDocument [])]],
            options := [OptResumeAfter None],
            cursor := Some (fresh_cursor
              \<lparr>pending := [],
               current := Inr [(''_id'', VDocument [(''_data'', VString ''t2'')])]\<rparr>)\<rparr>)"
proof -
  note t = only_other_command_errors_end_the_stream
  let ?net = "OtherError ''connection reset by peer''"
  let ?ss = "\<lparr>Description = ServerDesc ''s2'', Connection = Inr (Conn 2)\<rparr>"
  have f: "advance_fails_with (example_stream e None) (failed_cursor e) e" for e
    by (simp add: stream_evaluation)
  from t [OF f, of "CommandError 11600 ''interrupted''" healthy_world]
  have 1: "changeStream_Next healthy_world (example_stream (CommandError 11600 ''interrupted'') None)
     = (Returned (False, example_stream (CommandError 11600 ''interrupted'') None),
        [CursorNextCall 7])
   \<and> changeStream_Err (example_stream (CommandError 11600 ''interrupted'') None)
     = Returned (Some (CommandError 11600 ''interrupted''))"
    by (simp add: example_stream_def failed_cursor_def)
  from t [OF f, of "CommandError 10107 ''not master''" healthy_world,
          THEN conjunct2, rule_format, THEN conjunct2, THEN conjunct1]
  have 2: "take 2 (snd (changeStream_Next healthy_world
                (example_stream (CommandError 10107 ''not master'') None)))
     = [CursorNextCall 7, SelectServerCall (Selector ''read'')]"
    by (simp add: example_stream_def failed_cursor_def)
  from t [OF f, of ?net unreachable_world,
          THEN conjunct2, rule_format, THEN conjunct2, THEN conjunct2, THEN conjunct1,
          rule_format, of "OtherError ''server selection timeout''"]
  have 3: "changeStream_Next unreachable_world (example_stream ?net None)
     = (Returned (False,
          (example_stream ?net None)
            \<lparr>options := [OptResumeAfter None],
             err := Some (OtherError ''server selection timeout'')\<rparr>),
        [CursorNextCall 7, SelectServerCall (Selector ''read'')])"
    by (simp add: example_stream_def failed_cursor_def unreachable_world_def
          set_resume_directive_def)
  have a: "SelectServer (topology healthy_world) (coll_readSelector (coll (example_stream ?net None)))
             = Inr ?ss
           \<and> Connection ?ss = Inr (Conn 2) \<and> pipeline (example_stream ?net None) \<noteq> []
           \<and> Aggregate_RoundTrip healthy_world (resume_aggregate (example_stream ?net None))
                (Description ?ss) ?ss (Conn 2) = (Some fresh_cursor, None)"
    by (simp add: healthy_world_def example_stream_def)
  from t [OF f, of ?net healthy_world,
          THEN conjunct2, rule_format, THEN conjunct2, THEN conjunct2, THEN conjunct2,
          rule_format, OF _ a]
  have 4: "fst (changeStream_Next healthy_world (example_stream ?net None))
     = Returned (True,
         (example_stream ?net None)
           \<lparr>pipeline := [VDocument [(''$changeStream'', VDocument [])],
                         VDocument [(''$match'', VDocument [])]],
            options := [OptResumeAfter None],
            cursor := Some (fresh_cursor
              \<lparr>pending := [],
               current := Inr [(''_id'', VDocument [(''_data'', VString ''t2'')])]\<rparr>)\<rparr>)"
    by (simp add: resumed_def example_stream_def fresh_cursor_def cursor_Next_def
          set_resume_directive_def changeStreamStage_def)
  from 1 2 3 4 show ?thesis by simp
qed

subsection \<open>Resuming without a token\<close>

text \<open>
  Claim C2, the counterexample. The stream has decoded nothing and holds no resume token;
  its cursor fails with the command error 43. \<^verbatim>\<open>Next\<close> does not fail for want of a token:
  it writes a resume directive without a token into the options, selects a server, sends
  the aggregate and returns true, with no error stored in the stream.
\<close>

theorem resume_without_token_is_attempted:
  "resumeToken (example_stream (CommandError 43 ''cursor not found'') None) = None
   \<and> advance_fails_with
       (example_stream (CommandError 43 ''cursor not found'') None)
       (failed_cursor (CommandError 43 ''cursor not found''))
       (CommandError 43 ''cursor not found'')
   \<and> changeStream_Next healthy_world (example_stream (CommandError 43 ''cursor not found'') None)
     = (Returned (True,
          (example_stream (CommandError 43 ''cursor not found'') None)
            \<lparr>pipeline :=
               [VDocument [(''$changeStream'', VDocument [])],
                VDocument [(''$match'', VDocument [])]],
             options := [OptResumeAfter None],
             cursor := Some (fresh_cursor
               \<lparr>pending := [],
                current := Inr [(''_id'', VDocument [(''_data'', VString ''t2'')])]\<rparr>)\<rparr>),
        [CursorNextCall 7,
         SelectServerCall (Selector ''read''),
         ConnectionCall (ServerDesc ''s2''),
         KillCursorsRoundTrip \<lparr>kc_NS = \<lparr>DB = ''db'', Collection = ''events''\<rparr>, kc_IDs = [7]\<rparr>
           (ServerDesc ''s2'') (Conn 2),
         AggregateRoundTrip
           \<lparr>agg_NS = \<lparr>DB = ''db'', Collection = ''events''\<rparr>,
            agg_Pipeline =
              [VDocument [(''$changeStream'', VDocument [])],
               VDocument [(''$match'', VDocument [])]],
            agg_ReadPref = None, agg_Session = None\<rparr>
           (ServerDesc ''s2'') (Conn 2),
         CursorNextCall 8,
         ConnClose (Conn 2)])"
  by (simp add: stream_evaluation)

text \<open>
  Claim C2, amended. \<^verbatim>\<open>Next\<close> does not look at whether the stream holds a resume token.
  When the cursor fails with an error that does not end the stream and there is no token,
  the next thing \<^verbatim>\<open>Next\<close> does is select a server; when it gets a server and a connection
  (and the pipeline has a first stage) it sends \<^verbatim>\<open>killCursors\<close> and then the aggregate
  whose first stage is rebuilt from the options; and when it returns, the options hold a
  resume directive without a token, the stream still has no token, and the error stored
  in the stream is the one that server selection, the connection or the aggregate gave:
  \<^verbatim>\<open>Next\<close> produces no \<^verbatim>\<open>ErrMissingResumeToken\<close> of its own.
\<close>

theorem resume_does_not_need_a_token:
  assumes "advance_fails_with cs c e" and "\<not> returns_early e" and "resumeToken cs = None"
  shows "take 2 (snd (changeStream_Next w cs))
           = [CursorNextCall (cursor_ID c), SelectServerCall (coll_readSelector (coll cs))]
       \<and> (SelectServer (topology w) (coll_readSelector (coll cs)) = Inr ss
            \<and> Connection ss = Inr conn \<and> pipeline cs \<noteq> [] \<longrightarrow>
          take 5 (snd (changeStream_Next w cs))
           = [CursorNextCall (cursor_ID c),
              SelectServerCall (coll_readSelector (coll cs)),
              ConnectionCall (Description ss),
              KillCursorsRoundTrip (resume_killCursors cs c) (Description ss) conn,
              AggregateRoundTrip (resume_aggregate cs) (Description ss) conn])
       \<and> (fst (changeStream_Next w cs) = Returned (b, cs') \<longrightarrow>
          options cs' = set_resume_directive (options cs) (OptResumeAfter None)
          \<and> resumeToken cs' = None
          \<and> err cs' =
              (case SelectServer (topology w) (coll_readSelector (coll cs)) of
                 Inl e1 \<Rightarrow> Some e1
               | Inr ss \<Rightarrow>
                   (case Connection ss of
                      Inl e1 \<Rightarrow> Some e1
                    | Inr conn \<Rightarrow>
                        snd (Aggregate_RoundTrip w (resume_aggregate cs) (Description ss) ss conn))))"
proof -
  have n: "changeStream_Next w cs = resume w cs c [CursorNextCall (cursor_ID c)]"
    using assms(1,2) by (rule Next_enters_resume)
  have 1: "take 2 (snd (changeStream_Next w cs))
           = [CursorNextCall (cursor_ID c), SelectServerCall (coll_readSelector (coll cs))]"
    using resume_trace_selects [of "[CursorNextCall (cursor_ID c)]" w cs c]
    by (simp add: n numeral_2_eq_2)
  have 2: "take 5 (snd (changeStream_Next w cs))
           = [CursorNextCall (cursor_ID c),
              SelectServerCall (coll_readSelector (coll cs)),
              ConnectionCall (Description ss),
              KillCursorsRoundTrip (resume_killCursors cs c) (Description ss) conn,
              AggregateRoundTrip (resume_aggregate cs) (Description ss) conn]"
    if "SelectServer (topology w) (coll_readSelector (coll cs)) = Inr ss
            \<and> Connection ss = Inr conn \<and> pipeline cs \<noteq> []"
    using that by (simp add: n resume_trace_connected)
  have 3: "options cs' = set_resume_directive (options cs) (OptResumeAfter None)
          \<and> resumeToken cs' = None
          \<and> err cs' =
              (case SelectServer (topology w) (coll_readSelector (coll cs)) of
                 Inl e1 \<Rightarrow> Some e1
               | Inr ss \<Rightarrow>
                   (case Connection ss of
                      Inl e1 \<Rightarrow> Some e1
                    | Inr conn \<Rightarrow>
                        snd (Aggregate_RoundTrip w (resume_aggregate cs) (Description ss) ss conn)))"
    if r: "fst (changeStream_Next w cs) = Returned (b, cs')"
  proof -
    from r have r': "fst (resume w cs c [CursorNextCall (cursor_ID c)]) = Returned (b, cs')"
      by (simp add: n)
    from resume_Returned(1) [OF r'] resume_stored_error [OF r'] assms(3)
    show ?thesis by simp
  qed
  from 1 2 3 show ?thesis by blast
qed

theorem resume_does_not_need_a_token_witness:
  "take 5 (snd (changeStream_Next healthy_world
             (example_stream (CommandError 10107 ''not master'') None)))
     = [CursorNextCall 7,
        SelectServerCall (Selector ''read''),
        ConnectionCall (ServerDesc ''s2''),
        KillCursorsRoundTrip \<lparr>kc_NS = \<lparr>DB = ''db'', Collection = ''events''\<rparr>, kc_IDs = [7]\<rparr>
          (ServerDesc ''s2'') (Conn 2),
        AggregateRoundTrip
          \<lparr>agg_NS = \<lparr>DB = ''db'', Collection = ''events''\<rparr>,
           agg_Pipeline = [VDocument [(''$changeStream'', VDocument [])],
                           VDocument [(''$match'', VDocument [])]],
           agg_ReadPref = None, agg_Session = None\<rparr>
          (ServerDesc ''s2'') (Conn 2)]
   \<and> (case fst (changeStream_Next unreachable_world
                   (example_stream (CommandError 10107 ''not master'') None)) of
        Panicked \<Rightarrow> False
      | Returned (again, cs') \<Rightarrow>
          options cs' = [OptResumeAfter None] \<and> resumeToken cs' = None
          \<and> err cs' = Some (OtherError ''server selection timeout''))"
proof -
  let ?e = "CommandError 10107 ''not master''"
  let ?s = "example_stream ?e None"
  let ?ss = "\<lparr>Description = ServerDesc ''s2'', Connection = Inr (Conn 2)\<rparr>"
  note t = resume_does_not_need_a_token
  have f: "advance_fails_with ?s (failed_cursor ?e) ?e" and e: "\<not> returns_early ?e"
    and k: "resumeToken ?s = None"
    by (simp_all add: stream_evaluation)
  have s: "SelectServer (topology healthy_world) (coll_readSelector (coll ?s)) = Inr ?ss
           \<and> Connection ?ss = Inr (Conn 2) \<and> pipeline ?s \<noteq> []"
    by (simp add: healthy_world_def example_stream_def)
  from t [OF f e k, of healthy_world ?ss "Conn 2", THEN conjunct2, THEN conjunct1, rule_format, OF s]
  have 1: "take 5 (snd (changeStream_Next healthy_world ?s))
     = [CursorNextCall 7,
        SelectServerCall (Selector ''read''),
        ConnectionCall (ServerDesc ''s2''),
        KillCursorsRoundTrip \<lparr>kc_NS = \<lparr>DB = ''db'', Collection = ''events''\<rparr>, kc_IDs = [7]\<rparr>
          (ServerDesc ''s2'') (Conn 2),
        AggregateRoundTrip
          \<lparr>agg_NS = \<lparr>DB = ''db'', Collection = ''events''\<rparr>,
           agg_Pipeline = [VDocument [(''$changeStream'', VDocument [])],
                           VDocument [(''$match'', VDocument [])]],
           agg_ReadPref = None, agg_Session = None\<rparr>
          (ServerDesc ''s2'') (Conn 2)]"
    by (simp add: resume_killCursors_def resume_aggregate_def example_stream_def
          failed_cursor_def set_resume_directive_def changeStreamStage_def)
  obtain b cs' where r: "fst (changeStream_Next unreachable_world ?s) = Returned (b, cs')"
    by (auto simp: stream_evaluation)
  from t [OF f e k, of unreachable_world _ _ b cs', THEN conjunct2, THEN conjunct2, rule_format, OF r]
  have 2: "options cs' = [OptResumeAfter None] \<and> resumeToken cs' = None
          \<and> err cs' = Some (OtherError ''server selection timeout'')"
    by (simp add: example_stream_def set_resume_directive_def unreachable_world_def)
  from 1 2 r show ?thesis by simp
qed

subsection \<open>The order of a resume\<close>

text \<open>
  Claim C3, the counterexample. In a resume where everything succeeds, \<^verbatim>\<open>Next\<close> returns
  true on the new cursor, and its events are, in order: the cursor's failed advance, the
  server selection, the connection, and only then the \<^verbatim>\<open>killCursors\<close> round trip, which
  goes over the connection just taken from the newly selected server; then the aggregate,
  the advance of the new cursor and the close of the connection.
\<close>

theorem killCursors_follows_reselection:
  "changeStream_Next healthy_world
     (example_stream (CommandError 43 ''cursor not found'') (Some [(''_data'', VString ''t1'')]))
   = (Returned (True,
        (example_stream (CommandError 43 ''cursor not found'') (Some [(''_data'', VString ''t1'')]))
          \<lparr>pipeline :=
             [VDocument [(''$changeStream'',
                VDocument [(''resumeAfter'', VDocument [(''_data'', VString ''t1'')])])],
              VDocument [(''$match'', VDocument [])]],
           options := [OptResumeAfter (Some [(''_data'', VString ''t1'')])],
           cursor := Some (fresh_cursor
             \<lparr>pending := [],
              current := Inr [(''_id'', VDocument [(''_data'', VString ''t2'')])]\<rparr>)\<rparr>),
      [CursorNextCall 7,
       SelectServerCall (Selector ''read''),
       ConnectionCall (ServerDesc ''s2''),
       KillCursorsRoundTrip \<lparr>kc_NS = \<lparr>DB = ''db'', Collection = ''events''\<rparr>, kc_IDs = [7]\<rparr>
         (ServerDesc ''s2'') (Conn 2),
       AggregateRoundTrip
         \<lparr>agg_NS = \<lparr>DB = ''db'', Collection = ''events''\<rparr>,
          agg_Pipeline =
            [VDocument [(''$changeStream'',
               VDocument [(''resumeAfter'', VDocument [(''_data'', VString ''t1'')])])],
             VDocument [(''$match'', VDocument [])]],
          agg_ReadPref = None, agg_Session = None\<rparr>
         (ServerDesc ''s2'') (Conn 2),
       CursorNextCall 8,
       ConnClose (Conn 2)])"
  by (simp add: stream_evaluation)

text \<open>
  Claim C3, amended. A resume first selects a server and takes a connection from it. When
  both succeed (and the pipeline has a first stage), it then sends \<^verbatim>\<open>killCursors\<close> for the
  id of the failed cursor over that connection, to the server just selected, then the
  aggregate over the rebuilt pipeline; when the aggregate gives a cursor and no error it
  advances that cursor once and returns what the advance gives, when it gives an error it
  stores the error and returns false; the connection is closed last. What the
  \<^verbatim>\<open>killCursors\<close> round trip gives changes nothing: \<^verbatim>\<open>Next\<close> is the same in every
  environment that differs only in that round trip.
\<close>

theorem resume_reselects_then_kills:
  assumes "advance_fails_with cs c e" and "\<not> returns_early e"
    and "SelectServer (topology w) (coll_readSelector (coll cs)) = Inr ss"
    and "Connection ss = Inr conn"
    and "pipeline cs \<noteq> []"
  shows "changeStream_Next w cs =
     (case Aggregate_RoundTrip w (resume_aggregate cs) (Description ss) ss conn of
        (Some c', None) \<Rightarrow>
          (Returned (fst (cursor_Next c'),
             (resumed cs)\<lparr>cursor := Some (snd (cursor_Next c')), err := None\<rparr>),
           [CursorNextCall (cursor_ID c),
            SelectServerCall (coll_readSelector (coll cs)),
            ConnectionCall (Description ss),
            KillCursorsRoundTrip (resume_killCursors cs c) (Description ss) conn,
            AggregateRoundTrip (resume_aggregate cs) (Description ss) conn,
            CursorNextCall (cursor_ID c'),
            ConnClose conn])
      | (None, None) \<Rightarrow>
          (Panicked,
           [CursorNextCall (cursor_ID c),
            SelectServerCall (coll_readSelector (coll cs)),
            ConnectionCall (Description ss),
            KillCursorsRoundTrip (resume_killCursors cs c) (Description ss) conn,
            AggregateRoundTrip (resume_aggregate cs) (Description ss) conn,
            ConnClose conn])
      | (cur, Some e') \<Rightarrow>
          (Returned (False, (resumed cs)\<lparr>cursor := cur, err := Some e'\<rparr>),
           [CursorNextCall (cursor_ID c),
            SelectServerCall (coll_readSelector (coll cs)),
            ConnectionCall (Description ss),
            KillCursorsRoundTrip (resume_killCursors cs c) (Description ss) conn,
            AggregateRoundTrip (resume_aggregate cs) (Description ss) conn,
            ConnClose conn]))
     \<and> changeStream_Next (w\<lparr>KillCursors_RoundTrip := k\<rparr>) cs = changeStream_Next w cs"
proof
  have n: "changeStream_Next w cs = resume w cs c [CursorNextCall (cursor_ID c)]"
    using assms(1,2) by (rule Next_enters_resume)
  show "changeStream_Next w cs =
     (case Aggregate_RoundTrip w (resume_aggregate cs) (Description ss) ss conn of
        (Some c', None) \<Rightarrow>
          (Returned (fst (cursor_Next c'),
             (resumed cs)\<lparr>cursor := Some (snd (cursor_Next c')), err := None\<rparr>),
           [CursorNextCall (cursor_ID c),
            SelectServerCall (coll_readSelector (coll cs)),
            ConnectionCall (Description ss),
            KillCursorsRoundTrip (resume_killCursors cs c) (Description ss) conn,
            AggregateRoundTrip (resume_aggregate cs) (Description ss) conn,
            CursorNextCall (cursor_ID c'),
            ConnClose conn])
      | (None, None) \<Rightarrow>
          (Panicked,
           [CursorNextCall (cursor_ID c),
            SelectServerCall (coll_readSelector (coll cs)),
            ConnectionCall (Description ss),
            KillCursorsRoundTrip (resume_killCursors cs c) (Description ss) conn,
            AggregateRoundTrip (resume_aggregate cs) (Description ss) conn,
            ConnClose conn])
      | (cur, Some e') \<Rightarrow>
          (Returned (False, (resumed cs)\<lparr>cursor := cur, err := Some e'\<rparr>),
           [CursorNextCall (cursor_ID c),
            SelectServerCall (coll_readSelector (coll cs)),
            ConnectionCall (Description ss),
            KillCursorsRoundTrip (resume_killCursors cs c) (Description ss) conn,
            AggregateRoundTrip (resume_aggregate cs) (Description ss) conn,
            ConnClose conn]))"
    unfolding n resume_connected [OF assms(3,4,5), of c "[CursorNextCall (cursor_ID c)]"]
    by (simp split: prod.splits option.splits)
next
  show "changeStream_Next (w\<lparr>KillCursors_RoundTrip := k\<rparr>) cs = changeStream_Next w cs"
    by (rule Next_ignores_killCursors)
qed

theorem resume_reselects_then_kills_witness:
  "changeStream_Next flaky_world (example_stream (CommandError 10107 ''not master'') None)
     = (Returned (True,
          (example_stream (CommandError 10107 ''not master'') None)
            \<lparr>pipeline := [VDocument [(''$changeStream'', VDocument [])],
                          VDocument [(''$match'', VDocument [])]],
             options := [OptResumeAfter None],
             cursor := Some (flaky_cursor
               \<lparr>pending := [],
                current := Inr [(''_id'', VDocument [(''_data'', VString ''t2'')])]\<rparr>)\<rparr>),
        [CursorNextCall 7,
         SelectServerCall (Selector ''read''),
         ConnectionCall (ServerDesc ''s2''),
         KillCursorsRoundTrip \<lparr>kc_NS = \<lparr>DB = ''db'', Collection = ''events''\<rparr>, kc_IDs = [7]\<rparr>
           (ServerDesc ''s2'') (Conn 2),
         AggregateRoundTrip
           \<lparr>agg_NS = \<lparr>DB = ''db'', Collection = ''events''\<rparr>,
            agg_Pipeline = [VDocument [(''$changeStream'', VDocument [])],
                            VDocument [(''$match'', VDocument [])]],
            agg_ReadPref = None, agg_Session = None\<rparr>
           (ServerDesc ''s2'') (Conn 2),
         CursorNextCall 9,
         ConnClose (Conn 2)])
   \<and> changeStream_Next
        (flaky_world\<lparr>KillCursors_RoundTrip := (\<lambda>k d c. ([(''ok'', VInt32 1)], None))\<rparr>)
        (example_stream (CommandError 10107 ''not master'') None)
     = changeStream_Next flaky_world (example_stream (CommandError 10107 ''not master'') None)"
proof -
  let ?e = "CommandError 10107 ''not master''"
  let ?s = "example_stream ?e None"
  let ?ss = "\<lparr>Description = ServerDesc ''s2'', Connection = Inr (Conn 2)\<rparr>"
  have f: "advance_fails_with ?s (failed_cursor ?e) ?e" and e: "\<not> returns_early ?e"
    by (simp_all add: stream_evaluation)
  have s: "SelectServer (topology flaky_world) (coll_readSelector (coll ?s)) = Inr ?ss"
    and c: "Connection ?ss = Inr (Conn 2)" and p: "pipeline ?s \<noteq> []"
    by (simp_all add: flaky_world_def healthy_world_def example_stream_def)
  from resume_reselects_then_kills [OF f e s c p, of "\<lambda>k d c. ([(''ok'', VInt32 1)], None)"]
  show ?thesis
    by (simp add: resume_killCursors_def resume_aggregate_def resumed_def example_stream_def
          failed_cursor_def set_resume_directive_def changeStreamStage_def cursor_Next_def
          flaky_world_def flaky_cursor_def healthy_world_def)
qed

subsection \<open>Decoding\<close>

text \<open>
  Claim C6. For every document \<open>br\<close> decoded from the stream's cursor: when \<open>br\<close> carries a
  document under \<^verbatim>\<open>_id\<close>, it is returned with that \<^verbatim>\<open>_id\<close> stored as the stream's resume
  token; when \<open>br\<close> has no \<^verbatim>\<open>_id\<close>, the stream's cursor is closed and the call gives
  \<^verbatim>\<open>ErrMissingResumeToken\<close>; when the \<^verbatim>\<open>_id\<close> is not a document, the call panics. So
  whenever a document is returned, it is \<open>br\<close>, the stream's token is its \<^verbatim>\<open>_id\<close> and
  nothing else of the stream has changed; and whenever an error is returned, it is
  \<^verbatim>\<open>ErrMissingResumeToken\<close>, \<open>br\<close> has no \<^verbatim>\<open>_id\<close>, and the cursor is closed.
\<close>

theorem decode_captures_resume_token:
  assumes "cursor cs = Some c" and "cursor_DecodeBytes c = Inr br"
  shows "(LookupErr br ''_id'' = Inr (VDocument d)
            \<longrightarrow> changeStream_DecodeBytes cs = Returned (Inr br, cs\<lparr>resumeToken := Some d\<rparr>))
       \<and> (LookupErr br ''_id'' = Inl e
            \<longrightarrow> changeStream_DecodeBytes cs
                 = Returned (Inl ErrMissingResumeToken, cs\<lparr>cursor := Some (c\<lparr>closed := True\<rparr>)\<rparr>))
       \<and> (LookupErr br ''_id'' = Inr v \<and> Type v \<noteq> TypeEmbeddedDocument
            \<longrightarrow> changeStream_DecodeBytes cs = Panicked)
       \<and> (changeStream_DecodeBytes cs = Returned (Inr doc, cs')
            \<longrightarrow> doc = br
                \<and> (case resumeToken cs' of
                      None \<Rightarrow> False
                    | Some tok \<Rightarrow> LookupErr br ''_id'' = Inr (VDocument tok))
                \<and> cs' = cs\<lparr>resumeToken := resumeToken cs'\<rparr>)
       \<and> (changeStream_DecodeBytes cs = Returned (Inl e', cs')
            \<longrightarrow> e' = ErrMissingResumeToken
                \<and> LookupErr br ''_id'' = Inl ErrElementNotFound
                \<and> cs' = cs\<lparr>cursor := Some (c\<lparr>closed := True\<rparr>)\<rparr>)"
proof -
  have lookup: "LookupErr br ''_id'' = Inl x \<Longrightarrow> x = ErrElementNotFound" for x
    by (induction br) (auto split: if_splits)
  have eq: "changeStream_DecodeBytes cs =
      (case LookupErr br ''_id'' of
         Inl x \<Rightarrow> Returned (Inl ErrMissingResumeToken, cs\<lparr>cursor := Some (c\<lparr>closed := True\<rparr>)\<rparr>)
       | Inr idv \<Rightarrow>
           (case idv of
              VDocument t \<Rightarrow> Returned (Inr br, cs\<lparr>resumeToken := Some t\<rparr>)
            | _ \<Rightarrow> Panicked))"
    using assms
    by (simp add: changeStream_DecodeBytes_def changeStream_Close_def cursor_Close_def
          MutableDocument_def split: sum.splits bson_value.splits)
  show ?thesis
  proof (cases "LookupErr br ''_id''")
    case (Inl x)
    with lookup have "x = ErrElementNotFound" by simp
    with Inl show ?thesis by (simp add: eq)
  next
    case (Inr idv)
    then show ?thesis by (cases idv) (auto simp: eq)
  qed
qed

theorem decode_captures_resume_token_witness:
  "changeStream_DecodeBytes
     ((example_stream (OtherError ''none'') None)
        \<lparr>cursor := Some (decoded_cursor
           [(''_id'', VDocument [(''_data'', VString ''t1'')]), (''operationType'', VString ''insert'')])\<rparr>)
   = Returned (Inr [(''_id'', VDocument [(''_data'', VString ''t1'')]), (''operationType'', VString ''insert'')],
       (example_stream (OtherError ''none'') None)
         \<lparr>cursor := Some (decoded_cursor
            [(''_id'', VDocument [(''_data'', VString ''t1'')]), (''operationType'', VString ''insert'')]),
          resumeToken := Some [(''_data'', VString ''t1'')]\<rparr>)
   \<and> changeStream_DecodeBytes
     ((example_stream (OtherError ''none'') None)
        \<lparr>cursor := Some (decoded_cursor [(''operationType'', VString ''insert'')])\<rparr>)
   = Returned (Inl ErrMissingResumeToken,
       (example_stream (OtherError ''none'') None)
         \<lparr>cursor := Some ((decoded_cursor [(''operationType'', VString ''insert'')])\<lparr>closed := True\<rparr>)\<rparr>)
   \<and> changeStream_DecodeBytes
     ((example_stream (OtherError ''none'') None)
        \<lparr>cursor := Some (decoded_cursor [(''_id'', VString ''t1'')])\<rparr>)
   = Panicked"
proof -
  note t = decode_captures_resume_token
  let ?with_id = "[(''_id'', VDocument [(''_data'', VString ''t1'')]), (''operationType'', VString ''insert'')]"
  let ?without = "[(''operationType'', VString ''insert'')]"
  let ?text_id = "[(''_id'', VString ''t1'')]"
  let ?s = "example_stream (OtherError ''none'') None"
  have 1: "changeStream_DecodeBytes (?s\<lparr>cursor := Some (decoded_cursor ?with_id)\<rparr>)
      = Returned (Inr ?with_id, ?s\<lparr>cursor := Some (decoded_cursor ?with_id),
                                     resumeToken := Some [(''_data'', VString ''t1'')]\<rparr>)"
    using t [of "?s\<lparr>cursor := Some (decoded_cursor ?with_id)\<rparr>" "decoded_cursor ?with_id" ?with_id,
             THEN conjunct1, rule_format, of "[(''_data'', VString ''t1'')]"]
    by (simp add: cursor_DecodeBytes_def decoded_cursor_def)
  have 2: "changeStream_DecodeBytes (?s\<lparr>cursor := Some (decoded_cursor ?without)\<rparr>)
      = Returned (Inl ErrMissingResumeToken,
          ?s\<lparr>cursor := Some ((decoded_cursor ?without)\<lparr>closed := True\<rparr>)\<rparr>)"
    using t [of "?s\<lparr>cursor := Some (decoded_cursor ?without)\<rparr>" "decoded_cursor ?without" ?without,
             THEN conjunct2, THEN conjunct1, rule_format, of ErrElementNotFound]
    by (simp add: cursor_DecodeBytes_def decoded_cursor_def)
  have 3: "changeStream_DecodeBytes (?s\<lparr>cursor := Some (decoded_cursor ?text_id)\<rparr>) = Panicked"
    using t [of "?s\<lparr>cursor := Some (decoded_cursor ?text_id)\<rparr>" "decoded_cursor ?text_id" ?text_id,
             THEN conjunct2, THEN conjunct2, THEN conjunct1, rule_format, of "VString ''t1''"]
    by (simp add: cursor_DecodeBytes_def decoded_cursor_def)
  from 1 2 3 show ?thesis by simp
qed

subsection \<open>The option list and the pipeline across resumes\<close>



subsection \<open>A resume that cannot reach a server\<close>

text \<open>
  Claim C10. When a resume attempt fails to select a server, or the selected server gives
  no connection, \<^verbatim>\<open>Next\<close> returns false, no aggregate is sent, the stream keeps its cursor,
  the error is stored in the stream, and \<^verbatim>\<open>Err\<close> returns that error, not the error of the
  cursor.
\<close>

theorem resume_failure_is_stored:
  assumes "advance_fails_with cs c e0" and "\<not> returns_early e0"
    and "SelectServer (topology w) (coll_readSelector (coll cs)) = Inl e
         \<or> (SelectServer (topology w) (coll_readSelector (coll cs)) = Inr ss
             \<and> Connection ss = Inl e)"
  shows "case changeStream_Next w cs of
           (Panicked, tr) \<Rightarrow> False
         | (Returned (again, cs'), tr) \<Rightarrow>
             \<not> again
             \<and> filter is_AggregateRoundTrip tr = []
             \<and> cursor cs' = cursor cs
             \<and> err cs' = Some e
             \<and> changeStream_Err cs' = Returned (Some e)"
proof -
  have n: "changeStream_Next w cs = resume w cs c [CursorNextCall (cursor_ID c)]"
    using assms(1,2) by (rule Next_enters_resume)
  from assms(3) show ?thesis
  proof
    assume "SelectServer (topology w) (coll_readSelector (coll cs)) = Inl e"
    then show ?thesis
      by (simp add: n resume_selection_fails changeStream_Err_def)
  next
    assume "SelectServer (topology w) (coll_readSelector (coll cs)) = Inr ss
             \<and> Connection ss = Inl e"
    then show ?thesis
      by (simp add: n resume_connection_fails changeStream_Err_def)
  qed
qed

theorem resume_failure_is_stored_witness:
  "(case changeStream_Next unreachable_world (example_stream (CommandError 43 ''cursor not found'') None) of
      (Panicked, tr) \<Rightarrow> False
    | (Returned (again, cs'), tr) \<Rightarrow>
        \<not> again
        \<and> filter is_AggregateRoundTrip tr = []
        \<and> cursor cs' = cursor (example_stream (CommandError 43 ''cursor not found'') None)
        \<and> err cs' = Some (OtherError ''server selection timeout'')
        \<and> changeStream_Err cs' = Returned (Some (OtherError ''server selection timeout'')))
   \<and> (case changeStream_Next refusing_world (example_stream (CommandError 10107 ''not master'') None) of
      (Panicked, tr) \<Rightarrow> False
    | (Returned (again, cs'), tr) \<Rightarrow>
        \<not> again
        \<and> filter is_AggregateRoundTrip tr = []
        \<and> cursor cs' = cursor (example_stream (CommandError 10107 ''not master'') None)
        \<and> err cs' = Some (OtherError ''connection refused'')
        \<and> changeStream_Err cs' = Returned (Some (OtherError ''connection refused'')))"
proof -
  let ?a = "example_stream (CommandError 43 ''cursor not found'') None"
  let ?b = "example_stream (CommandError 10107 ''not master'') None"
  have fa: "advance_fails_with ?a (failed_cursor (CommandError 43 ''cursor not found''))
              (CommandError 43 ''cursor not found'')"
    and fb: "advance_fails_with ?b (failed_cursor (CommandError 10107 ''not master''))
              (CommandError 10107 ''not master'')"
    by (simp_all add: advance_fails_with_def example_stream_def failed_cursor_def cursor_Next_def)
  have ea: "\<not> returns_early (CommandError 43 ''cursor not found'')"
    and eb: "\<not> returns_early (CommandError 10107 ''not master'')"
    by (simp_all add: returns_early_def errorCodeNotMaster_def errorCodeCursorNotFound_def)
  have sa: "SelectServer (topology unreachable_world) (coll_readSelector (coll ?a))
              = Inl (OtherError ''server selection timeout'')"
    by (simp add: unreachable_world_def)
  have sb: "SelectServer (topology refusing_world) (coll_readSelector (coll ?b))
              = Inr \<lparr>Description = ServerDesc ''s3'',
                     Connection = Inl (OtherError ''connection refused'')\<rparr>
            \<and> Connection \<lparr>Description = ServerDesc ''s3'',
                     Connection = Inl (OtherError ''connection refused'')\<rparr>
              = Inl (OtherError ''connection refused'')"
    by (simp add: refusing_world_def)
  show ?thesis
    using resume_failure_is_stored [OF fa ea disjI1, OF sa]
          resume_failure_is_stored [OF fb eb disjI2, OF sb]
    by simp
qed

section \<open>Dispatch of FindOneAndUpdate: results\<close>

lemma acknowledged_loop_append:
  "acknowledged_loop (opts @ [opt])
     = (if list_ex is_OptWriteConcern opts then acknowledged_loop opts
        else acknowledged_loop [opt])"
  by (induction opts rule: acknowledged_loop.induct) simp_all

lemma acknowledged_loop_find:
  "acknowledged_loop opts
     = (case find is_OptWriteConcern opts of
          None \<Rightarrow> True
        | Some first \<Rightarrow> Acknowledged first)"
  by (induction opts rule: acknowledged_loop.induct) simp_all

text \<open>
  Claim C4, the counterexample. The command carries an explicit write-concern option and
  an override is given. The command that is dispatched carries both options: the
  override was appended although an explicit option was there.
\<close>

theorem override_is_injected_beside_explicit_option:
  "list_ex is_OptWriteConcern (fou_Opts (example_update [unacknowledged_option]))
   \<and> FindOneAndUpdate panicking_fou_world (example_update [unacknowledged_option])
        example_topology (Selector ''write'') (Some (WriteConcernValue ''majority''))
     = (Returned (\<lparr>Value = []\<rparr>, Some ErrUnacknowledgedWrite),
        [SelectServerCall (Selector ''write''), ConnectionCall (ServerDesc ''s1'')],
        [Detached (example_update [unacknowledged_option, majority_option])
           (ServerDesc ''s1'') (Conn 1)])"
  by (simp add: FindOneAndUpdate_def inject_write_concern_def Let_def example_update_def
        unacknowledged_option_def majority_option_def panicking_fou_world_def
        example_topology_def)

text \<open>
  Claim C4, amended. Given an override that converts to an option, the dispatch appends
  that option to the end of the command's options whether or not the command carries a
  write-concern option of its own, and the command it sends (itself, or in the goroutine
  it starts) carries the appended option. Acknowledgement is decided by the first
  write-concern option of the resulting list (a list with none counts as acknowledged):
  the command's own first one when it has one, and the override's otherwise.
\<close>

theorem override_is_appended_and_first_option_decides:
  assumes "SelectServer topo sel = Inr ss"
    and "writeConcernOption w wc = Inr opt"
    and "Connection ss = Inr conn"
  shows "FindOneAndUpdate w cmd topo sel (Some wc)
           = (if acknowledged_loop (fou_Opts cmd @ [opt])
              then (FindOneAndUpdate_RoundTrip w (cmd\<lparr>fou_Opts := fou_Opts cmd @ [opt]\<rparr>)
                      (Description ss) conn,
                    [SelectServerCall sel, ConnectionCall (Description ss),
                     FindOneAndUpdateRoundTrip (cmd\<lparr>fou_Opts := fou_Opts cmd @ [opt]\<rparr>)
                       (Description ss) conn,
                     ConnClose conn],
                    [])
              else (Returned (\<lparr>Value = []\<rparr>, Some ErrUnacknowledgedWrite),
                    [SelectServerCall sel, ConnectionCall (Description ss)],
                    [Detached (cmd\<lparr>fou_Opts := fou_Opts cmd @ [opt]\<rparr>) (Description ss) conn]))
       \<and> (list_ex is_OptWriteConcern (fou_Opts cmd) \<longrightarrow>
            acknowledged_loop (fou_Opts cmd @ [opt]) = acknowledged_loop (fou_Opts cmd))
       \<and> (\<not> list_ex is_OptWriteConcern (fou_Opts cmd) \<longrightarrow>
            acknowledged_loop (fou_Opts cmd @ [opt]) = acknowledged_loop [opt])
       \<and> acknowledged_loop (fou_Opts cmd @ [opt])
           = (case find is_OptWriteConcern (fou_Opts cmd @ [opt]) of
                None \<Rightarrow> True
              | Some first \<Rightarrow> Acknowledged first)"
proof (intro conjI impI)
  from assms show "FindOneAndUpdate w cmd topo sel (Some wc)
           = (if acknowledged_loop (fou_Opts cmd @ [opt])
              then (FindOneAndUpdate_RoundTrip w (cmd\<lparr>fou_Opts := fou_Opts cmd @ [opt]\<rparr>)
                      (Description ss) conn,
                    [SelectServerCall sel, ConnectionCall (Description ss),
                     FindOneAndUpdateRoundTrip (cmd\<lparr>fou_Opts := fou_Opts cmd @ [opt]\<rparr>)
                       (Description ss) conn,
                     ConnClose conn],
                    [])
              else (Returned (\<lparr>Value = []\<rparr>, Some ErrUnacknowledgedWrite),
                    [SelectServerCall sel, ConnectionCall (Description ss)],
                    [Detached (cmd\<lparr>fou_Opts := fou_Opts cmd @ [opt]\<rparr>) (Description ss) conn]))"
    by (simp add: FindOneAndUpdate_def inject_write_concern_def Let_def)
next
  assume "list_ex is_OptWriteConcern (fou_Opts cmd)"
  then show "acknowledged_loop (fou_Opts cmd @ [opt]) = acknowledged_loop (fou_Opts cmd)"
    by (simp add: acknowledged_loop_append)
next
  assume "\<not> list_ex is_OptWriteConcern (fou_Opts cmd)"
  then show "acknowledged_loop (fou_Opts cmd @ [opt]) = acknowledged_loop [opt]"
    by (simp add: acknowledged_loop_append)
next
  show "acknowledged_loop (fou_Opts cmd @ [opt])
           = (case find is_OptWriteConcern (fou_Opts cmd @ [opt]) of
                None \<Rightarrow> True
              | Some first \<Rightarrow> Acknowledged first)"
    by (rule acknowledged_loop_find)
qed

theorem override_is_appended_and_first_option_decides_witness:
  "FindOneAndUpdate panicking_fou_world (example_update [unacknowledged_option])
        example_topology (Selector ''write'') (Some (WriteConcernValue ''majority''))
     = (Returned (\<lparr>Value = []\<rparr>, Some ErrUnacknowledgedWrite),
        [SelectServerCall (Selector ''write''), ConnectionCall (ServerDesc ''s1'')],
        [Detached (example_update [unacknowledged_option, majority_option])
           (ServerDesc ''s1'') (Conn 1)])
   \<and> acknowledged_loop [unacknowledged_option, majority_option]
        = acknowledged_loop [unacknowledged_option]
   \<and> acknowledged_loop [OtherFindOneAndUpdateOpt ''upsert'' (VBoolean True), majority_option]
        = acknowledged_loop [majority_option]"
proof -
  let ?ss = "\<lparr>Description = ServerDesc ''s1'', Connection = Inr (Conn 1)\<rparr>"
  note t = override_is_appended_and_first_option_decides
  have s: "SelectServer example_topology (Selector ''write'') = Inr ?ss"
    by (simp add: example_topology_def)
  have o: "writeConcernOption panicking_fou_world (WriteConcernValue ''majority'') = Inr majority_option"
    by (simp add: panicking_fou_world_def)
  have c: "Connection ?ss = Inr (Conn 1)"
    by simp
  from t [OF s o c, of "example_update [unacknowledged_option]"]
  have 1: "FindOneAndUpdate panicking_fou_world (example_update [unacknowledged_option])
        example_topology (Selector ''write'') (Some (WriteConcernValue ''majority''))
     = (Returned (\<lparr>Value = []\<rparr>, Some ErrUnacknowledgedWrite),
        [SelectServerCall (Selector ''write''), ConnectionCall (ServerDesc ''s1'')],
        [Detached (example_update [unacknowledged_option, majority_option])
           (ServerDesc ''s1'') (Conn 1)])
   \<and> acknowledged_loop [unacknowledged_option, majority_option]
        = acknowledged_loop [unacknowledged_option]"
    by (simp add: example_update_def unacknowledged_option_def)
  from t [OF s o c, of "example_update [OtherFindOneAndUpdateOpt ''upsert'' (VBoolean True)]",
          THEN conjunct2, THEN conjunct2, THEN conjunct1]
  have 2: "acknowledged_loop [OtherFindOneAndUpdateOpt ''upsert'' (VBoolean True), majority_option]
        = acknowledged_loop [majority_option]"
    by (simp add: example_update_def)
  from 1 2 show ?thesis by simp
qed

text \<open>
  Claim C5. When the first write-concern option of the command (after the override, if
  any, was appended) says the write is unacknowledged, the call returns the empty result
  with \<^verbatim>\<open>ErrUnacknowledgedWrite\<close> having selected a server and taken a connection and
  nothing else: it neither sends the command nor closes the connection, and it starts one
  goroutine. That goroutine sends the command and closes the connection, and it ends
  normally whatever the round trip gives, a panic included.
\<close>

theorem unacknowledged_write_is_detached:
  assumes "SelectServer topo sel = Inr ss"
    and "inject_write_concern w cmd wc = Inr cmd1"
    and "\<not> acknowledged_loop (fou_Opts cmd1)"
    and "Connection ss = Inr conn"
  shows "FindOneAndUpdate w cmd topo sel wc
           = (Returned (\<lparr>Value = []\<rparr>, Some ErrUnacknowledgedWrite),
              [SelectServerCall sel, ConnectionCall (Description ss)],
              [Detached cmd1 (Description ss) conn])
       \<and> run_goroutine w' (Detached cmd1 (Description ss) conn)
           = (Returned (),
              [FindOneAndUpdateRoundTrip cmd1 (Description ss) conn, ConnClose conn])"
proof
  from assms show "FindOneAndUpdate w cmd topo sel wc
           = (Returned (\<lparr>Value = []\<rparr>, Some ErrUnacknowledgedWrite),
              [SelectServerCall sel, ConnectionCall (Description ss)],
              [Detached cmd1 (Description ss) conn])"
    by (simp add: FindOneAndUpdate_def Let_def)
next
  show "run_goroutine w' (Detached cmd1 (Description ss) conn)
           = (Returned (),
              [FindOneAndUpdateRoundTrip cmd1 (Description ss) conn, ConnClose conn])"
    by (cases "FindOneAndUpdate_RoundTrip w' cmd1 (Description ss) conn")
       (simp_all add: run_goroutine_def recover_def)
qed

theorem unacknowledged_write_is_detached_witness:
  "FindOneAndUpdate panicking_fou_world (example_update [unacknowledged_option]) example_topology
       (Selector ''write'') None
     = (Returned (\<lparr>Value = []\<rparr>, Some ErrUnacknowledgedWrite),
        [SelectServerCall (Selector ''write''), ConnectionCall (ServerDesc ''s1'')],
        [Detached (example_update [unacknowledged_option]) (ServerDesc ''s1'') (Conn 1)])
   \<and> run_goroutine panicking_fou_world
        (Detached (example_update [unacknowledged_option]) (ServerDesc ''s1'') (Conn 1))
     = (Returned (),
        [FindOneAndUpdateRoundTrip (example_update [unacknowledged_option]) (ServerDesc ''s1'') (Conn 1),
         ConnClose (Conn 1)])"
proof -
  let ?ss = "\<lparr>Description = ServerDesc ''s1'', Connection = Inr (Conn 1)\<rparr>"
  have s: "SelectServer example_topology (Selector ''write'') = Inr ?ss"
    by (simp add: example_topology_def)
  have i: "inject_write_concern panicking_fou_world (example_update [unacknowledged_option]) None
             = Inr (example_update [unacknowledged_option])"
    by (simp add: inject_write_concern_def)
  have a: "\<not> acknowledged_loop (fou_Opts (example_update [unacknowledged_option]))"
    by (simp add: example_update_def unacknowledged_option_def)
  have c: "Connection ?ss = Inr (Conn 1)"
    by simp
  show ?thesis
    using unacknowledged_write_is_detached [OF s i a c, of panicking_fou_world]
    by simp
qed

section \<open>Dispatch of Aggregate: results\<close>

text \<open>
  Claim C8. An \<^verbatim>\<open>Aggregate\<close> dispatch selects a server exactly once, with the write
  selector when \<^verbatim>\<open>HasDollarOut\<close> holds of the command and with the read selector
  otherwise; so, the two selectors being different, the write selector is used if and
  only if \<^verbatim>\<open>HasDollarOut\<close> holds. What the topology answers to that selector decides the
  outcome: its error is the error of the dispatch, and the server it gives is the one whose
  connection is taken and over which the command is sent; what the topology would answer
  to any other selector changes nothing.
\<close>

theorem aggregate_selects_by_dollar_out:
  "filter is_SelectServerCall (snd (Aggregate w cmd topo readSelector writeSelector clientID pool))
     = [SelectServerCall (if HasDollarOut cmd then writeSelector else readSelector)]
   \<and> (readSelector \<noteq> writeSelector \<longrightarrow>
        (SelectServerCall writeSelector
           \<in> set (snd (Aggregate w cmd topo readSelector writeSelector clientID pool))
         \<longleftrightarrow> HasDollarOut cmd))
   \<and> (SelectServer topo (if HasDollarOut cmd then writeSelector else readSelector) = Inl e \<longrightarrow>
        Aggregate w cmd topo readSelector writeSelector clientID pool
          = ((None, Some e),
             [SelectServerCall (if HasDollarOut cmd then writeSelector else readSelector)]))
   \<and> (SelectServer topo (if HasDollarOut cmd then writeSelector else readSelector) = Inr ss
        \<and> Connection ss = Inl e \<longrightarrow>
        Aggregate w cmd topo readSelector writeSelector clientID pool
          = ((None, Some e),
             [SelectServerCall (if HasDollarOut cmd then writeSelector else readSelector),
              ConnectionCall (Description ss)]))
   \<and> (SelectServer topo (if HasDollarOut cmd then writeSelector else readSelector) = Inr ss
        \<and> Connection ss = Inr conn
        \<and> getReadPrefBasedOnTransaction w (agg_ReadPref cmd) (agg_Session cmd) = Inr rp
        \<and> attach_session w (cmd\<lparr>agg_ReadPref := rp\<rparr>) topo clientID pool = Inr cmd1 \<longrightarrow>
        Aggregate w cmd topo readSelector writeSelector clientID pool
          = (cmd_RoundTrip w cmd1 (Description ss) ss conn,
             [SelectServerCall (if HasDollarOut cmd then writeSelector else readSelector),
              ConnectionCall (Description ss),
              AggregateRoundTrip cmd1 (Description ss) conn,
              ConnClose conn]))
   \<and> (SelectServer topo' (if HasDollarOut cmd then writeSelector else readSelector)
          = SelectServer topo (if HasDollarOut cmd then writeSelector else readSelector)
        \<and> SupportsSessions topo' = SupportsSessions topo \<longrightarrow>
        Aggregate w cmd topo' readSelector writeSelector clientID pool
          = Aggregate w cmd topo readSelector writeSelector clientID pool)"
proof -
  let ?chosen = "if HasDollarOut cmd then writeSelector else readSelector"
  let ?run = "\<lambda>t. Aggregate w cmd t readSelector writeSelector clientID pool"
  have unfold: "?run t =
      (case SelectServer t ?chosen of
         Inl e \<Rightarrow> ((None, Some e), [SelectServerCall ?chosen])
       | Inr ss \<Rightarrow>
           (case Connection ss of
              Inl e \<Rightarrow> ((None, Some e), [SelectServerCall ?chosen, ConnectionCall (Description ss)])
            | Inr conn \<Rightarrow>
                (case getReadPrefBasedOnTransaction w (agg_ReadPref cmd) (agg_Session cmd) of
                   Inl e \<Rightarrow> ((None, Some e),
                              [SelectServerCall ?chosen, ConnectionCall (Description ss),
                               ConnClose conn])
                 | Inr rp \<Rightarrow>
                     (case attach_session w (cmd\<lparr>agg_ReadPref := rp\<rparr>) t clientID pool of
                        Inl e \<Rightarrow> ((None, Some e),
                                   [SelectServerCall ?chosen, ConnectionCall (Description ss),
                                    ConnClose conn])
                      | Inr cmd1 \<Rightarrow>
                          (cmd_RoundTrip w cmd1 (Description ss) ss conn,
                           [SelectServerCall ?chosen, ConnectionCall (Description ss),
                            AggregateRoundTrip cmd1 (Description ss) conn, ConnClose conn])))))"
    for t
    by (cases "HasDollarOut cmd") (simp_all add: Aggregate_def Let_def split: sum.splits)
  have tr: "filter is_SelectServerCall (snd (?run topo)) = [SelectServerCall ?chosen]"
    by (simp add: unfold split: sum.splits)
  have rest: "SelectServerCall s \<in> set (snd (?run topo)) \<longleftrightarrow> s = ?chosen" for s
  proof -
    have "SelectServerCall s \<in> set (snd (?run topo))
            \<longleftrightarrow> SelectServerCall s \<in> set (filter is_SelectServerCall (snd (?run topo)))"
      by simp
    also have "\<dots> \<longleftrightarrow> s = ?chosen"
      unfolding tr by auto
    finally show ?thesis .
  qed
  have iff: "SelectServerCall writeSelector \<in> set (snd (?run topo)) \<longleftrightarrow> HasDollarOut cmd"
    if "readSelector \<noteq> writeSelector"
    using that by (auto simp: rest)
  have fail: "?run topo = ((None, Some e), [SelectServerCall ?chosen])"
    if "SelectServer topo ?chosen = Inl e"
    using that by (simp add: unfold)
  have noconn: "?run topo = ((None, Some e), [SelectServerCall ?chosen, ConnectionCall (Description ss)])"
    if "SelectServer topo ?chosen = Inr ss \<and> Connection ss = Inl e"
    using that by (simp add: unfold)
  have ok: "?run topo = (cmd_RoundTrip w cmd1 (Description ss) ss conn,
             [SelectServerCall ?chosen, ConnectionCall (Description ss),
              AggregateRoundTrip cmd1 (Description ss) conn, ConnClose conn])"
    if "SelectServer topo ?chosen = Inr ss \<and> Connection ss = Inr conn
        \<and> getReadPrefBasedOnTransaction w (agg_ReadPref cmd) (agg_Session cmd) = Inr rp
        \<and> attach_session w (cmd\<lparr>agg_ReadPref := rp\<rparr>) topo clientID pool = Inr cmd1"
    using that by (simp add: unfold)
  have indep: "?run topo' = ?run topo"
    if "SelectServer topo' ?chosen = SelectServer topo ?chosen
        \<and> SupportsSessions topo' = SupportsSessions topo"
  proof -
    from that have "attach_session w c topo' clientID pool = attach_session w c topo clientID pool"
      for c
      by (simp add: attach_session_def)
    with that show ?thesis
      by (simp add: unfold cong: sum.case_cong)
  qed
  from tr iff fail noconn ok indep show ?thesis by blast
qed

theorem aggregate_selects_by_dollar_out_witness:
  "Aggregate example_agg_world
     (example_aggregate [VDocument [(''$match'', VDocument [])], VDocument [(''$out'', VString ''archive'')]])
     two_server_topology (Selector ''read'') (Selector ''write'') (UUID 1) (Pool 1)
   = ((Some fresh_cursor, None),
      [SelectServerCall (Selector ''write''),
       ConnectionCall (ServerDesc ''primary''),
       AggregateRoundTrip
         (example_aggregate [VDocument [(''$match'', VDocument [])], VDocument [(''$out'', VString ''archive'')]])
         (ServerDesc ''primary'') (Conn 1),
       ConnClose (Conn 1)])
   \<and> Aggregate example_agg_world
     (example_aggregate [VDocument [(''$match'', VDocument [])]])
     two_server_topology (Selector ''read'') (Selector ''write'') (UUID 1) (Pool 1)
   = ((Some fresh_cursor, None),
      [SelectServerCall (Selector ''read''),
       ConnectionCall (ServerDesc ''secondary''),
       AggregateRoundTrip
         (example_aggregate [VDocument [(''$match'', VDocument [])]])
         (ServerDesc ''secondary'') (Conn 2),
       ConnClose (Conn 2)])"
proof -
  note t = aggregate_selects_by_dollar_out
  let ?out = "example_aggregate [VDocument [(''$match'', VDocument [])], VDocument [(''$out'', VString ''archive'')]]"
  let ?plain = "example_aggregate [VDocument [(''$match'', VDocument [])]]"
  let ?primary = "\<lparr>Description = ServerDesc ''primary'', Connection = Inr (Conn 1)\<rparr>"
  let ?secondary = "\<lparr>Description = ServerDesc ''secondary'', Connection = Inr (Conn 2)\<rparr>"
  have o: "HasDollarOut ?out" and p: "\<not> HasDollarOut ?plain"
    by (simp_all add: HasDollarOut_def is_out_stage_def example_aggregate_def)
  have so: "SelectServer two_server_topology (Selector ''write'') = Inr ?primary"
    and sp: "SelectServer two_server_topology (Selector ''read'') = Inr ?secondary"
    by (simp_all add: two_server_topology_def)
  have r: "getReadPrefBasedOnTransaction example_agg_world (agg_ReadPref c) (agg_Session c)
             = Inr (agg_ReadPref c)" for c
    by (simp add: example_agg_world_def)
  have a: "attach_session example_agg_world (c\<lparr>agg_ReadPref := agg_ReadPref c\<rparr>)
             two_server_topology (UUID 1) (Pool 1) = Inr c" for c
    by (simp add: attach_session_def two_server_topology_def)
  have 1: "Aggregate example_agg_world ?out two_server_topology (Selector ''read'') (Selector ''write'')
             (UUID 1) (Pool 1)
           = ((Some fresh_cursor, None),
              [SelectServerCall (Selector ''write''), ConnectionCall (ServerDesc ''primary''),
               AggregateRoundTrip ?out (ServerDesc ''primary'') (Conn 1), ConnClose (Conn 1)])"
    using t [THEN conjunct2, THEN conjunct2, THEN conjunct2, THEN conjunct2, THEN conjunct1,
             rule_format,
             where cmd = ?out and writeSelector = "Selector ''write''"
               and readSelector = "Selector ''read''" and topo = two_server_topology
               and ss = ?primary and conn = "Conn 1" and w = example_agg_world
               and rp = "agg_ReadPref ?out" and clientID = "UUID 1" and pool = "Pool 1"
               and ?cmd1.0 = ?out]
          o so r [of ?out] a [of ?out]
    by (simp add: example_agg_world_def)
  have 2: "Aggregate example_agg_world ?plain two_server_topology (Selector ''read'') (Selector ''write'')
             (UUID 1) (Pool 1)
           = ((Some fresh_cursor, None),
              [SelectServerCall (Selector ''read''), ConnectionCall (ServerDesc ''secondary''),
               AggregateRoundTrip ?plain (ServerDesc ''secondary'') (Conn 2), ConnClose (Conn 2)])"
    using t [THEN conjunct2, THEN conjunct2, THEN conjunct2, THEN conjunct2, THEN conjunct1,
             rule_format,
             where cmd = ?plain and writeSelector = "Selector ''write''"
               and readSelector = "Selector ''read''" and topo = two_server_topology
               and ss = ?secondary and conn = "Conn 2" and w = example_agg_world
               and rp = "agg_ReadPref ?plain" and clientID = "UUID 1" and pool = "Pool 1"
               and ?cmd1.0 = ?plain]
          p sp r [of ?plain] a [of ?plain]
    by (simp add: example_agg_world_def)
  from 1 2 show ?thesis by simp
qed

end
